theory Spec2Isabelle
  imports Main "HOL-Library.AList"
begin

section \<open>JavaScript values\<close>

text \<open>
  The request bodies and the stored documents hold JSON scalars; arrays and objects
  inside a field lie outside the model. A number is an IEEE double:
  \<^item> \<open>Fin n\<close> is the double whose value is the integer \<open>n\<close> (both zeros are
    \<open>Fin 0\<close>); the model computes with it when \<open>|n| \<le> 2^53\<close>, the range in
    which every integer is a double and is written in plain digits;
  \<^item> \<open>NaN\<close>, \<open>PInf\<close> and \<open>NInf\<close> are the three special values;
  \<^item> \<open>Other d\<close> is a finite double that is not an integer, named by a code number
    that the model never inspects.
  What the language does with the doubles it does not compute with, and how it reads a
  string that is not a plain decimal integer, is taken from the record of library
  functions below, about which nothing is assumed.
\<close>

datatype jsnum = Fin int | NaN | PInf | NInf | Other nat

datatype jsval = Undefined | Null | Bool bool | Num jsnum | Str string

definition safe :: "int \<Rightarrow> bool" where
  "safe n = (- 9007199254740992 \<le> n \<and> n \<le> 9007199254740992)"

text \<open>Truthiness, as tested by \<^verbatim>\<open>!x\<close>, \<^verbatim>\<open>x || y\<close> and \<^verbatim>\<open>x ? a : b\<close>.\<close>

fun truthy :: "jsval \<Rightarrow> bool" where
  "truthy Undefined = False"
| "truthy Null = False"
| "truthy (Bool b) = b"
| "truthy (Num (Fin n)) = (n \<noteq> 0)"
| "truthy (Num NaN) = False"
| "truthy (Num PInf) = True"
| "truthy (Num NInf) = True"
| "truthy (Num (Other d)) = True"
| "truthy (Str s) = (s \<noteq> [])"

text \<open>\<^verbatim>\<open>a || b\<close> and \<^verbatim>\<open>a ?? b\<close>.\<close>

definition js_or :: "jsval \<Rightarrow> jsval \<Rightarrow> jsval" where
  "js_or a b = (if truthy a then a else b)"

definition js_nullish :: "jsval \<Rightarrow> jsval \<Rightarrow> jsval" where
  "js_nullish a b = (if a = Undefined \<or> a = Null then b else a)"

section \<open>Objects, errors and the library\<close>

text \<open>An object is its list of properties in insertion order.\<close>

type_synonym obj = "(string \<times> jsval) list"

text \<open>\<^verbatim>\<open>o.k\<close>: a missing property reads as \<^verbatim>\<open>undefined\<close>.\<close>

definition get_prop :: "obj \<Rightarrow> string \<Rightarrow> jsval" where
  "get_prop ob k = (case map_of ob k of None \<Rightarrow> Undefined | Some v \<Rightarrow> v)"

text \<open>\<^verbatim>\<open>{ ...a, ...b }\<close>: the properties of \<open>b\<close> are assigned over those of \<open>a\<close>.\<close>

definition spread :: "obj \<Rightarrow> obj \<Rightarrow> obj" where
  "spread a b = foldl (\<lambda>acc (k, v). AList.update k v acc) a b"

text \<open>A thrown \<^verbatim>\<open>Error\<close> with its optional \<^verbatim>\<open>code\<close> and \<^verbatim>\<open>payload\<close> properties.\<close>

datatype js_error = Error (err_code: "nat option") (err_message: string) (err_payload: "obj option")

text \<open>
  The functions of the language and of the store's client library that the model does
  not compute:
  \<^item> \<open>number_of_string s\<close> is \<^verbatim>\<open>Number(s)\<close> for a string that is not a plain decimal
    integer (fractions, exponents, \<^verbatim>\<open>0x\<close> literals, \<^verbatim>\<open>Infinity\<close>, integers above
    \<open>2^53\<close>, white space beyond ASCII, and every string that is no number);
  \<^item> \<open>string_of_other x\<close> is \<^verbatim>\<open>String(x)\<close> and \<open>succ_other x\<close> is \<^verbatim>\<open>x + 1\<close>
    for a double \<open>x\<close> that is not an integer or lies beyond \<open>2^53\<close>;
  \<^item> \<open>doc_other c\<close> is what \<^verbatim>\<open>collection.doc(c)\<close> does with a string that is not a
    plain document id: it throws (\<open>Inl\<close>) or names a document (\<open>Inr\<close>).
  Every theorem holds for every such record.
\<close>

record lib =
  number_of_string :: "string \<Rightarrow> jsnum"
  string_of_other :: "jsnum \<Rightarrow> string"
  succ_other :: "jsnum \<Rightarrow> jsnum"
  doc_other :: "string \<Rightarrow> js_error + string"

subsection \<open>Decimal numerals\<close>

definition digit_char :: "int \<Rightarrow> char" where
  "digit_char d = char_of (48 + d)"

definition is_digit :: "char \<Rightarrow> bool" where
  "is_digit c = (48 \<le> (of_char c :: int) \<and> (of_char c :: int) \<le> 57)"

definition digit_val :: "char \<Rightarrow> int" where
  "digit_val c = of_char c - 48"

function show_pos :: "int \<Rightarrow> string" where
  "show_pos n = (if n < 10 then [digit_char n] else show_pos (n div 10) @ [digit_char (n mod 10)])"
  by pat_completeness auto
termination
  by (relation "measure nat") auto

declare show_pos.simps [simp del]

definition show_int :: "int \<Rightarrow> string" where
  "show_int i = (if i < 0 then CHR ''-'' # show_pos (- i) else show_pos i)"

definition parse_digits :: "string \<Rightarrow> int" where
  "parse_digits cs = foldl (\<lambda>a c. 10 * a + digit_val c) 0 cs"

definition is_space :: "char \<Rightarrow> bool" where
  "is_space c = ((of_char c :: int) \<in> {32, 9, 10, 11, 12, 13})"

definition trim :: "string \<Rightarrow> string" where
  "trim s = rev (dropWhile is_space (rev (dropWhile is_space s)))"

text \<open>An unsigned run of decimal digits whose value is at most \<open>2^53\<close>.\<close>

definition unsigned_number :: "string \<Rightarrow> int option" where
  "unsigned_number ds =
     (if ds \<noteq> [] \<and> list_all is_digit ds \<and> parse_digits ds \<le> 9007199254740992
      then Some (parse_digits ds) else None)"

text \<open>
  The plain decimal integers: between ASCII white space, nothing (which is 0) or an
  optional sign and a run of digits of value at most \<open>2^53\<close>. On these \<^verbatim>\<open>Number\<close>
  is exact.
\<close>

definition plain_number :: "string \<Rightarrow> int option" where
  "plain_number s =
     (case trim s of
        [] \<Rightarrow> Some 0
      | c # cs \<Rightarrow>
          if c = CHR ''-'' then map_option uminus (unsigned_number cs)
          else if c = CHR ''+'' then unsigned_number cs
          else unsigned_number (c # cs))"

definition string_to_number :: "lib \<Rightarrow> string \<Rightarrow> jsnum" where
  "string_to_number B s =
     (case plain_number s of Some n \<Rightarrow> Fin n | None \<Rightarrow> number_of_string B s)"

text \<open>\<^verbatim>\<open>Number(v)\<close>, \<^verbatim>\<open>String(v)\<close>, \<^verbatim>\<open>isNaN(n)\<close> and \<^verbatim>\<open>n + 1\<close>. Adding 1 to
  \<open>2^53\<close> rounds back to \<open>2^53\<close>.\<close>

fun js_Number :: "lib \<Rightarrow> jsval \<Rightarrow> jsnum" where
  "js_Number B Undefined = NaN"
| "js_Number B Null = Fin 0"
| "js_Number B (Bool b) = Fin (if b then 1 else 0)"
| "js_Number B (Num n) = n"
| "js_Number B (Str s) = string_to_number B s"

definition num_to_string :: "lib \<Rightarrow> jsnum \<Rightarrow> string" where
  "num_to_string B x =
     (case x of
        Fin n \<Rightarrow> if safe n then show_int n else string_of_other B x
      | NaN \<Rightarrow> ''NaN''
      | PInf \<Rightarrow> ''Infinity''
      | NInf \<Rightarrow> ''-Infinity''
      | Other d \<Rightarrow> string_of_other B x)"

fun js_String :: "lib \<Rightarrow> jsval \<Rightarrow> string" where
  "js_String B Undefined = ''undefined''"
| "js_String B Null = ''null''"
| "js_String B (Bool b) = (if b then ''true'' else ''false'')"
| "js_String B (Num n) = num_to_string B n"
| "js_String B (Str s) = s"

definition js_isNaN :: "jsnum \<Rightarrow> bool" where
  "js_isNaN x = (x = NaN)"

definition num_succ :: "lib \<Rightarrow> jsnum \<Rightarrow> jsnum" where
  "num_succ B x =
     (case x of
        Fin n \<Rightarrow> if safe n then (if n < 9007199254740992 then Fin (n + 1) else Fin n)
                 else succ_other B x
      | NaN \<Rightarrow> NaN
      | PInf \<Rightarrow> PInf
      | NInf \<Rightarrow> NInf
      | Other d \<Rightarrow> succ_other B x)"

section \<open>The document store\<close>

text \<open>
  A collection is the list of the documents under it, key first: its own documents
  under their ids, which never contain \<^verbatim>\<open>/\<close>, and the documents of its
  sub-collections under their paths, which do. The program creates documents of the
  first kind only.
\<close>

type_synonym coll = "(string \<times> obj) list"

record store =
  user_col :: coll
  addr_col :: coll
  rider_col :: coll
  counters :: coll

text \<open>
  \<^verbatim>\<open>collection.doc(c)\<close>. A plain id, made of ASCII letters, digits, \<^verbatim>\<open>-\<close> and
  \<^verbatim>\<open>_\<close>, at most 1500 long and not of the reserved form \<^verbatim>\<open>__...__\<close>, names the
  document of the collection with that id. For any other string the library decides.
\<close>

definition id_char :: "char \<Rightarrow> bool" where
  "id_char c =
     (let n = (of_char c :: nat)
      in (48 \<le> n \<and> n \<le> 57) \<or> (65 \<le> n \<and> n \<le> 90) \<or> (97 \<le> n \<and> n \<le> 122) \<or> n = 45 \<or> n = 95)"

definition plain_id :: "string \<Rightarrow> bool" where
  "plain_id c =
     (c \<noteq> [] \<and> length c \<le> 1500 \<and> list_all id_char c
      \<and> \<not> (take 2 c = ''__'' \<and> take 2 (rev c) = ''__''))"

definition doc_ref :: "lib \<Rightarrow> string \<Rightarrow> js_error + string" where
  "doc_ref B c = (if plain_id c then Inr c else doc_other B c)"

text \<open>\<^verbatim>\<open>ref.get()\<close>, \<^verbatim>\<open>ref.set(data)\<close>, \<^verbatim>\<open>ref.update(fields)\<close>, \<^verbatim>\<open>ref.delete()\<close>
  on the document with key \<open>k\<close>, and \<^verbatim>\<open>collection.where("phone", "==", s).limit(1).get()\<close>.
  \<open>set\<close> replaces the document or creates it; \<open>update\<close> assigns the given fields
  over those of an existing document (the program calls it only on a document it has
  just read); the query returns the first document of the collection itself whose
  \<^verbatim>\<open>phone\<close> field is the string \<open>s\<close>.\<close>

definition doc_get :: "coll \<Rightarrow> string \<Rightarrow> obj option" where
  "doc_get c k = map_of c k"

definition doc_set :: "coll \<Rightarrow> string \<Rightarrow> obj \<Rightarrow> coll" where
  "doc_set c k d = AList.update k d c"

definition doc_update :: "coll \<Rightarrow> string \<Rightarrow> obj \<Rightarrow> coll" where
  "doc_update c k fs = (case map_of c k of None \<Rightarrow> c | Some d \<Rightarrow> AList.update k (spread d fs) c)"

definition doc_delete :: "coll \<Rightarrow> string \<Rightarrow> coll" where
  "doc_delete c k = AList.delete k c"

definition where_phone :: "coll \<Rightarrow> string \<Rightarrow> (string \<times> obj) option" where
  "where_phone c s = find (\<lambda>(k, d). CHR ''/'' \<notin> set k \<and> get_prop d ''phone'' = Str s) c"

section \<open>Responses\<close>

text \<open>The JSON body of a response: scalar properties and nested objects. \<^verbatim>\<open>res.json\<close>
  leaves out a property whose value is \<^verbatim>\<open>undefined\<close> and writes \<^verbatim>\<open>null\<close> for
  \<open>NaN\<close> and the infinities.\<close>

datatype json = JV jsval | JO "(string \<times> json) list"

fun json_val :: "jsval \<Rightarrow> json option" where
  "json_val Undefined = None"
| "json_val (Num NaN) = Some (JV Null)"
| "json_val (Num PInf) = Some (JV Null)"
| "json_val (Num NInf) = Some (JV Null)"
| "json_val v = Some (JV v)"

definition of_obj :: "obj \<Rightarrow> json" where
  "of_obj ob = JO (List.map_filter (\<lambda>(k, v). map_option (Pair k) (json_val v)) ob)"

text \<open>The property names of a response body.\<close>

fun json_keys :: "json \<Rightarrow> string list" where
  "json_keys (JO kvs) = map fst kvs"
| "json_keys (JV v) = []"

type_synonym response = "nat \<times> json"

text \<open>\<^verbatim>\<open>res.status(e.code || 400).json({ error: e.message, ...(e.payload || {}) })\<close>\<close>

definition status_of :: "js_error \<Rightarrow> nat" where
  "status_of e = (case err_code e of None \<Rightarrow> 400 | Some c \<Rightarrow> if c = 0 then 400 else c)"

definition error_response :: "js_error \<Rightarrow> response" where
  "error_response e =
     (status_of e,
      of_obj (spread [(''error'', Str (err_message e))]
                (case err_payload e of None \<Rightarrow> [] | Some p \<Rightarrow> p)))"

section \<open>The variant with sequential ids (\<^verbatim>\<open>functions/index.js\<close>)\<close>

subsection \<open>Auto-increment counter\<close>

text \<open>
  \<^verbatim>\<open>nextId\<close> makes the reference of the counter document, which throws for a name the
  library refuses, and runs its body inside \<^verbatim>\<open>db.runTransaction\<close>. The model of the
  transaction is the committed one: one atomic step from the store before to the store
  after. Aborts, retries and failures of the store belong to the store's client
  library.
\<close>

definition nextId :: "lib \<Rightarrow> string \<Rightarrow> store \<Rightarrow> (js_error + jsnum) \<times> store" where
  "nextId B sequence st =
     (case doc_ref B sequence of
        Inl e \<Rightarrow> (Inl e, st)
      | Inr k \<Rightarrow>
          let snap = doc_get (counters st) k;
              current = (case snap of
                           Some d \<Rightarrow> js_Number B (js_or (get_prop d ''value'') (Num (Fin 0)))
                         | None \<Rightarrow> Fin 0);
              next = num_succ B current
          in (Inr next,
              st\<lparr>counters :=
                   (case snap of
                      None \<Rightarrow> doc_set (counters st) k [(''value'', Num next)]
                    | Some d \<Rightarrow> doc_update (counters st) k [(''value'', Num next)])\<rparr>))"

subsection \<open>Helper functions\<close>

definition assertPhoneNotDuplicate :: "lib \<Rightarrow> jsval \<Rightarrow> store \<Rightarrow> js_error + unit" where
  "assertPhoneNotDuplicate B phone st =
     (case where_phone (user_col st) (js_String B phone) of
        Some (k, d) \<Rightarrow>
          Inl (Error (Some 409) ''phone already exists'' (Some (spread [(''id'', Str k)] d)))
      | None \<Rightarrow> Inr ())"

definition normalizeRoleInt :: "lib \<Rightarrow> jsval \<Rightarrow> js_error + jsnum" where
  "normalizeRoleInt B role =
     (let r = js_Number B (js_nullish role (Num (Fin 0)))
      in if r \<noteq> Fin 0 \<and> r \<noteq> Fin 1 then Inl (Error (Some 400) ''role must be 0 or 1'' None)
         else Inr r)"

subsection \<open>Core creators\<close>

text \<open>The creators store under the key \<^verbatim>\<open>String(n)\<close> of the allocated number, which
  is always an id the library accepts.\<close>

definition user_data :: "lib \<Rightarrow> jsnum \<Rightarrow> jsval \<Rightarrow> jsval \<Rightarrow> jsval \<Rightarrow> jsval \<Rightarrow> jsnum \<Rightarrow> obj" where
  "user_data B idNum name password phone picture roleInt =
     [(''user_id'', Num idNum),
      (''name'', Str (js_String B name)),
      (''password'', Str (js_String B password)),
      (''phone'', Str (js_String B phone)),
      (''picture'', if truthy picture then Str (js_String B picture) else Null),
      (''role'', Num roleInt)]"

definition createUser ::
  "lib \<Rightarrow> jsval \<Rightarrow> jsval \<Rightarrow> jsval \<Rightarrow> jsval \<Rightarrow> jsval \<Rightarrow> store \<Rightarrow> (js_error + obj) \<times> store" where
  "createUser B name password phone picture role st =
     (if \<not> truthy name \<or> \<not> truthy password \<or> \<not> truthy phone
      then (Inl (Error (Some 400) ''name, password, phone are required'' None), st)
      else case normalizeRoleInt B role of
        Inl e \<Rightarrow> (Inl e, st)
      | Inr roleInt \<Rightarrow>
          (case assertPhoneNotDuplicate B phone st of
             Inl e \<Rightarrow> (Inl e, st)
           | Inr u \<Rightarrow>
               (case nextId B ''user_seq'' st of
                  (Inl e, st1) \<Rightarrow> (Inl e, st1)
                | (Inr idNum, st1) \<Rightarrow>
                    let ident = num_to_string B idNum;
                        data = user_data B idNum name password phone picture roleInt
                    in (Inr (spread [(''id'', Str ident)] data),
                        st1\<lparr>user_col := doc_set (user_col st1) ident data\<rparr>))))"

text \<open>\<^verbatim>\<open>isNaN(Number(user_id)) ? String(user_id) : Number(user_id)\<close>\<close>

definition foreign_key :: "lib \<Rightarrow> jsval \<Rightarrow> jsval" where
  "foreign_key B user_id =
     (if js_isNaN (js_Number B user_id) then Str (js_String B user_id) else Num (js_Number B user_id))"

text \<open>\<^verbatim>\<open>x == null ? null : Number(x)\<close>\<close>

definition coordinate :: "lib \<Rightarrow> jsval \<Rightarrow> jsval" where
  "coordinate B x = (if x = Null \<or> x = Undefined then Null else Num (js_Number B x))"

definition createAddress ::
  "lib \<Rightarrow> jsval \<Rightarrow> jsval \<Rightarrow> jsval \<Rightarrow> jsval \<Rightarrow> store \<Rightarrow> (js_error + obj) \<times> store" where
  "createAddress B user_id address lat lng st =
     (if \<not> truthy user_id \<or> \<not> truthy address
      then (Inl (Error (Some 400) ''user_id and address are required'' None), st)
      else case nextId B ''address_seq'' st of
        (Inl e, st1) \<Rightarrow> (Inl e, st1)
      | (Inr addrIdNum, st1) \<Rightarrow>
          let addrId = num_to_string B addrIdNum;
              payload = [(''address_id'', Num addrIdNum),
                         (''user_id'', foreign_key B user_id),
                         (''address'', Str (js_String B address)),
                         (''lat'', coordinate B lat),
                         (''lng'', coordinate B lng)]
          in (Inr (spread [(''id'', Str addrId)] payload),
              st1\<lparr>addr_col := doc_set (addr_col st1) addrId payload\<rparr>))"

definition createRiderCar ::
  "lib \<Rightarrow> jsval \<Rightarrow> jsval \<Rightarrow> jsval \<Rightarrow> jsval \<Rightarrow> store \<Rightarrow> (js_error + obj) \<times> store" where
  "createRiderCar B user_id image_car plate_number car_type st =
     (if \<not> truthy user_id \<or> \<not> truthy plate_number \<or> \<not> truthy car_type
      then (Inl (Error (Some 400) ''user_id, plate_number, car_type are required'' None), st)
      else case nextId B ''rider_seq'' st of
        (Inl e, st1) \<Rightarrow> (Inl e, st1)
      | (Inr riderIdNum, st1) \<Rightarrow>
          let riderId = num_to_string B riderIdNum;
              payload = [(''rider_id'', Num riderIdNum),
                         (''user_id'', foreign_key B user_id),
                         (''image_car'', if truthy image_car then Str (js_String B image_car) else Null),
                         (''plate_number'', Str (js_String B plate_number)),
                         (''car_type'', Str (js_String B car_type))]
          in (Inr (spread [(''id'', Str riderId)] payload),
              st1\<lparr>rider_col := doc_set (rider_col st1) riderId payload\<rparr>))"

subsection \<open>Routes\<close>

text \<open>A handler takes the request body (\<^verbatim>\<open>req.body ?? {}\<close>) and the store, and
  returns the response and the store it leaves.\<close>

definition register_user :: "lib \<Rightarrow> obj \<Rightarrow> store \<Rightarrow> response \<times> store" where
  "register_user B body st =
     (case createUser B (get_prop body ''name'') (get_prop body ''password'') (get_prop body ''phone'')
             (get_prop body ''picture'') (Num (Fin 0)) st of
        (Inl e, st1) \<Rightarrow> (error_response e, st1)
      | (Inr user, st1) \<Rightarrow> ((201, JO [(''user'', of_obj user)]), st1))"

definition register_rider :: "lib \<Rightarrow> obj \<Rightarrow> store \<Rightarrow> response \<times> store" where
  "register_rider B body st =
     (case createUser B (get_prop body ''name'') (get_prop body ''password'') (get_prop body ''phone'')
             (get_prop body ''picture'') (Num (Fin 1)) st of
        (Inl e, st1) \<Rightarrow> (error_response e, st1)
      | (Inr user, st1) \<Rightarrow>
          (case createRiderCar B (get_prop user ''id'') (get_prop body ''image_car'')
                  (get_prop body ''plate_number'') (get_prop body ''car_type'') st1 of
             (Inl e, st2) \<Rightarrow> (error_response e, st2)
           | (Inr rider_car, st2) \<Rightarrow>
               ((201, JO [(''user'', of_obj user), (''rider_car'', of_obj rider_car)]), st2)))"

text \<open>\<^verbatim>\<open>DELETE /users/:id\<close>: \<open>ident\<close> is \<^verbatim>\<open>String(req.params.id)\<close>; an error thrown by
  the library is answered 500 with its message.\<close>

definition delete_user :: "lib \<Rightarrow> string \<Rightarrow> store \<Rightarrow> response \<times> store" where
  "delete_user B ident st =
     (case doc_ref B ident of
        Inl e \<Rightarrow> ((500, of_obj [(''error'', Str (err_message e))]), st)
      | Inr k \<Rightarrow>
          (case doc_get (user_col st) k of
             None \<Rightarrow> ((404, of_obj [(''error'', Str ''not found'')]), st)
           | Some d \<Rightarrow> ((200, of_obj [(''ok'', Bool True)]), st\<lparr>user_col := doc_delete (user_col st) k\<rparr>)))"

definition login :: "lib \<Rightarrow> obj \<Rightarrow> store \<Rightarrow> response" where
  "login B body st =
     (let phone = get_prop body ''phone''; password = get_prop body ''password''
      in if \<not> truthy phone \<or> \<not> truthy password
         then (400, of_obj [(''error'', Str ''phone and password are required'')])
         else case where_phone (user_col st) (js_String B phone) of
           None \<Rightarrow> (401, of_obj [(''error'', Str ''invalid credentials'')])
         | Some (k, u) \<Rightarrow>
             if js_String B (get_prop u ''password'') \<noteq> js_String B password
             then (401, of_obj [(''error'', Str ''invalid credentials'')])
             else (200, of_obj [(''id'', Str k), (''name'', get_prop u ''name''),
                                (''phone'', get_prop u ''phone''),
                                (''role'', Num (js_Number B (get_prop u ''role'')))]))"

section \<open>The variant with store-generated keys\<close>

text \<open>
  Here \<^verbatim>\<open>collection.add(data)\<close> lets the store choose the document key. The key
  it chooses is an argument of the model (\<open>autoId\<close>); the store generates a key that
  is not in use.
\<close>

definition doc_add :: "coll \<Rightarrow> string \<Rightarrow> obj \<Rightarrow> coll" where
  "doc_add c autoId d = doc_set c autoId d"

text \<open>\<^verbatim>\<open>{ id: ref.id, ...doc.data() }\<close> after \<^verbatim>\<open>doc = await ref.get()\<close>\<close>

definition with_id :: "coll \<Rightarrow> string \<Rightarrow> obj" where
  "with_id c k = spread [(''id'', Str k)] (case doc_get c k of None \<Rightarrow> [] | Some d \<Rightarrow> d)"

definition assertPhoneNotDuplicate_simple :: "lib \<Rightarrow> jsval \<Rightarrow> store \<Rightarrow> js_error + unit" where
  "assertPhoneNotDuplicate_simple B phone st =
     (case where_phone (user_col st) (js_String B phone) of
        Some (k, u) \<Rightarrow>
          Inl (Error (Some 409) ''phone already exists''
                 (Some [(''id'', Str k), (''phone'', get_prop u ''phone''), (''name'', get_prop u ''name'')]))
      | None \<Rightarrow> Inr ())"

definition createUser_simple ::
  "lib \<Rightarrow> jsval \<Rightarrow> jsval \<Rightarrow> jsval \<Rightarrow> jsval \<Rightarrow> jsval \<Rightarrow> string \<Rightarrow> store \<Rightarrow> (js_error + obj) \<times> store" where
  "createUser_simple B name password phone picture role autoId st =
     (if \<not> truthy name \<or> \<not> truthy password \<or> \<not> truthy phone
      then (Inl (Error (Some 400) ''name, password, phone are required'' None), st)
      else let roleNum = (if role = Undefined then Fin 0 else js_Number B role)
      in if roleNum \<notin> set [Fin 0, Fin 1]
         then (Inl (Error (Some 400) ''role must be 0 or 1'' None), st)
         else case assertPhoneNotDuplicate_simple B phone st of
           Inl e \<Rightarrow> (Inl e, st)
         | Inr u \<Rightarrow>
             let st1 = st\<lparr>user_col := doc_add (user_col st) autoId
                          [(''name'', Str (js_String B name)),
                           (''password'', Str (js_String B password)),
                           (''phone'', Str (js_String B phone)),
                           (''picture'', if truthy picture then Str (js_String B picture) else Null),
                           (''role'', Num roleNum)]\<rparr>
             in (Inr (with_id (user_col st1) autoId), st1))"


definition createRiderCar_simple ::
  "lib \<Rightarrow> jsval \<Rightarrow> jsval \<Rightarrow> jsval \<Rightarrow> jsval \<Rightarrow> string \<Rightarrow> store \<Rightarrow> (js_error + obj) \<times> store" where
  "createRiderCar_simple B user_id image_car plate_number car_type autoId st =
     (if \<not> truthy user_id \<or> \<not> truthy plate_number \<or> \<not> truthy car_type
      then (Inl (Error (Some 400) ''user_id, plate_number, car_type are required'' None), st)
      else let st1 = st\<lparr>rider_col := doc_add (rider_col st) autoId
                          [(''user_id'', Str (js_String B user_id)),
                           (''image_car'', if truthy image_car then Str (js_String B image_car) else Null),
                           (''plate_number'', Str (js_String B plate_number)),
                           (''car_type'', Str (js_String B car_type))]\<rparr>
           in (Inr (with_id (rider_col st1) autoId), st1))"

definition post_users_simple :: "lib \<Rightarrow> obj \<Rightarrow> string \<Rightarrow> store \<Rightarrow> response \<times> store" where
  "post_users_simple B body autoId st =
     (case createUser_simple B (get_prop body ''name'') (get_prop body ''password'')
             (get_prop body ''phone'') (get_prop body ''picture'') (get_prop body ''role'') autoId st of
        (Inl e, st1) \<Rightarrow> (error_response e, st1)
      | (Inr user, st1) \<Rightarrow> ((201, of_obj user), st1))"

definition register_rider_simple :: "lib \<Rightarrow> obj \<Rightarrow> string \<Rightarrow> string \<Rightarrow> store \<Rightarrow> response \<times> store" where
  "register_rider_simple B body autoUser autoRider st =
     (case createUser_simple B (get_prop body ''name'') (get_prop body ''password'')
             (get_prop body ''phone'') (get_prop body ''picture'') (Num (Fin 1)) autoUser st of
        (Inl e, st1) \<Rightarrow> (error_response e, st1)
      | (Inr user, st1) \<Rightarrow>
          (case createRiderCar_simple B (get_prop user ''id'') (get_prop body ''image_car'')
                  (get_prop body ''plate_number'') (get_prop body ''car_type'') autoRider st1 of
             (Inl e, st2) \<Rightarrow> (error_response e, st2)
           | (Inr rider_car, st2) \<Rightarrow>
               ((201, JO [(''user'', of_obj user), (''rider_car'', of_obj rider_car)]), st2)))"


definition login_simple :: "lib \<Rightarrow> obj \<Rightarrow> store \<Rightarrow> response" where
  "login_simple B body st =
     (let phone = get_prop body ''phone''; password = get_prop body ''password''
      in if \<not> truthy phone \<or> \<not> truthy password
         then (400, of_obj [(''error'', Str ''phone and password are required'')])
         else case where_phone (user_col st) (js_String B phone) of
           None \<Rightarrow> (401, of_obj [(''error'', Str ''invalid credentials'')])
         | Some (k, u) \<Rightarrow>
             if js_String B (get_prop u ''password'') \<noteq> js_String B password
             then (401, of_obj [(''error'', Str ''invalid credentials'')])
             else (200, of_obj [(''id'', Str k), (''name'', get_prop u ''name''),
                                (''phone'', get_prop u ''phone''),
                                (''role'', get_prop u ''role'')]))"

section \<open>Operations and the counter invariant\<close>

text \<open>The operations of the variant with sequential ids that write to the store, and
  the login handler. The handlers not listed (the \<^verbatim>\<open>GET\<close> routes and \<^verbatim>\<open>PATCH\<close>) address
  only the user collection.\<close>

datatype operation =
    OpNextId string
  | OpCreateUser jsval jsval jsval jsval jsval
  | OpCreateAddress jsval jsval jsval jsval
  | OpCreateRiderCar jsval jsval jsval jsval
  | OpRegisterUser obj
  | OpRegisterRider obj
  | OpDeleteUser string
  | OpLogin obj

fun perform :: "lib \<Rightarrow> operation \<Rightarrow> store \<Rightarrow> store" where
  "perform B (OpNextId s) st = snd (nextId B s st)"
| "perform B (OpCreateUser name password phone picture role) st =
     snd (createUser B name password phone picture role st)"
| "perform B (OpCreateAddress user_id address lat lng) st = snd (createAddress B user_id address lat lng st)"
| "perform B (OpCreateRiderCar user_id image_car plate_number car_type) st =
     snd (createRiderCar B user_id image_car plate_number car_type st)"
| "perform B (OpRegisterUser body) st = snd (register_user B body st)"
| "perform B (OpRegisterRider body) st = snd (register_rider B body st)"
| "perform B (OpDeleteUser ident) st = snd (delete_user B ident st)"
| "perform B (OpLogin body) st = st"

fun run :: "lib \<Rightarrow> operation list \<Rightarrow> store \<Rightarrow> store" where
  "run B [] st = st"
| "run B (x # xs) st = run B xs (perform B x st)"

text \<open>A counter document is well formed when its value is an integer from 0 to \<open>2^53\<close>.\<close>

definition is_count :: "jsval \<Rightarrow> bool" where
  "is_count v = (case v of Num (Fin n) \<Rightarrow> 0 \<le> n \<and> n \<le> 9007199254740992 | _ \<Rightarrow> False)"

definition counters_ok :: "store \<Rightarrow> bool" where
  "counters_ok st = list_all (\<lambda>(k, d). is_count (get_prop d ''value'')) (counters st)"

definition counter_value :: "store \<Rightarrow> string \<Rightarrow> int" where
  "counter_value st s =
     (case doc_get (counters st) s of
        None \<Rightarrow> 0
      | Some d \<Rightarrow> (case get_prop d ''value'' of Num (Fin n) \<Rightarrow> n | _ \<Rightarrow> 0))"

text \<open>The value after an allocation: one more, except at \<open>2^53\<close>.\<close>

definition bump :: "int \<Rightarrow> int" where
  "bump n = (if n < 9007199254740992 then n + 1 else n)"

text \<open>One store grows into another: well-formed counters stay so, and none decreases.\<close>

definition grows :: "store \<Rightarrow> store \<Rightarrow> bool" where
  "grows st st' = (counters_ok st' \<and> (\<forall>s. counter_value st s \<le> counter_value st' s))"

section \<open>Example values\<close>

definition empty_store :: store where
  "empty_store = \<lparr>user_col = [], addr_col = [], rider_col = [], counters = []\<rparr>"

text \<open>A library record for evaluating examples; the examples stay inside what the
  model computes, so their results do not depend on it.\<close>

definition example_lib :: lib where
  "example_lib = \<lparr>number_of_string = (\<lambda>s. NaN), string_of_other = (\<lambda>x. ''other''),
     succ_other = (\<lambda>x. x),
     doc_other = (\<lambda>c. Inl (Error None ''invalid document path'' None))\<rparr>"

section \<open>Facts about the store primitives\<close>

lemma spread_single: "spread d [(k, v)] = AList.update k v d"
  by (simp add: spread_def)

lemma get_prop_update: "get_prop (AList.update k v d) k' = (if k' = k then v else get_prop d k')"
  by (simp add: get_prop_def update_conv')

lemma doc_get_set: "doc_get (doc_set c k d) k' = (if k' = k then Some d else doc_get c k')"
  by (simp add: doc_get_def doc_set_def update_conv')

lemma doc_get_update:
  "doc_get (doc_update c k fs) k' =
     (if k' = k then map_option (\<lambda>d. spread d fs) (doc_get c k) else doc_get c k')"
  by (simp add: doc_get_def doc_update_def update_conv' split: option.splits)

lemma current_of_int: "js_Number B (js_or (Num (Fin n)) (Num (Fin 0))) = Fin n"
  by (simp add: js_or_def)

lemma doc_ref_plain: "plain_id c \<Longrightarrow> doc_ref B c = Inr c"
  by (simp add: doc_ref_def)

lemma plain_sequences:
  "plain_id ''user_seq''" "plain_id ''address_seq''" "plain_id ''rider_seq''"
  by (simp_all add: plain_id_def id_char_def)

lemma doc_ref_sequences:
  "doc_ref B ''user_seq'' = Inr ''user_seq''"
  "doc_ref B ''address_seq'' = Inr ''address_seq''"
  "doc_ref B ''rider_seq'' = Inr ''rider_seq''"
  by (simp_all add: doc_ref_plain plain_sequences)

lemma num_succ_safe:
  "- 9007199254740992 \<le> n \<Longrightarrow> n < 9007199254740992 \<Longrightarrow> num_succ B (Fin n) = Fin (n + 1)"
  by (simp add: num_succ_def safe_def)

lemma num_succ_top: "num_succ B (Fin 9007199254740992) = Fin 9007199254740992"
  by (simp add: num_succ_def safe_def)

section \<open>The sequence allocator\<close>

lemma nextId_throws: "doc_ref B s = Inl e \<Longrightarrow> nextId B s st = (Inl e, st)"
  by (simp add: nextId_def)

lemma nextId_fst:
  "doc_ref B s = Inr k \<Longrightarrow>
   fst (nextId B s st) =
     Inr (num_succ B (case doc_get (counters st) k of
                 None \<Rightarrow> Fin 0
               | Some d \<Rightarrow> js_Number B (js_or (get_prop d ''value'') (Num (Fin 0)))))"
  by (simp add: nextId_def Let_def)

lemma nextId_counters:
  "doc_ref B s = Inr k \<Longrightarrow> fst (nextId B s st) = Inr v \<Longrightarrow>
   doc_get (counters (snd (nextId B s st))) k' =
     (if k' = k then
        (case doc_get (counters st) k of
           None \<Rightarrow> Some [(''value'', Num v)]
         | Some d \<Rightarrow> Some (AList.update ''value'' (Num v) d))
      else doc_get (counters st) k')"
  by (auto simp: nextId_def Let_def doc_get_set doc_get_update spread_single split: option.splits)

lemma nextId_frame:
  "user_col (snd (nextId B s st)) = user_col st"
  "addr_col (snd (nextId B s st)) = addr_col st"
  "rider_col (snd (nextId B s st)) = rider_col st"
  by (simp_all add: nextId_def Let_def split: sum.splits)

text \<open>
  C1. For every sequence name \<open>s\<close> and store: when the library refuses the name
  (\<^verbatim>\<open>doc\<close> throws), \<^verbatim>\<open>nextId(s)\<close> throws and the store is untouched; a plain name
  names its own counter document. When \<^verbatim>\<open>doc(s)\<close> names the counter document \<open>k\<close>,
  the committed transaction reads it, takes 0 as the current value when the document is
  absent (and \<^verbatim>\<open>Number(value || 0)\<close> otherwise), returns \<open>next = current + 1\<close> in
  the arithmetic of doubles, which is \<open>n + 1\<close> for a stored integer \<open>n\<close> with
  \<open>-2^53 \<le> n < 2^53\<close>, and leaves a counter document whose \<^verbatim>\<open>value\<close> is
  \<open>next\<close>: the document is created as \<^verbatim>\<open>{ value: 1 }\<close> when it was absent. No
  other counter and no other collection changes.
\<close>

theorem nextId_allocates:
  "(\<forall>e. doc_ref B s = Inl e \<longrightarrow> nextId B s st = (Inl e, st))
   \<and> (plain_id s \<longrightarrow> doc_ref B s = Inr s)
   \<and> (\<forall>k. doc_ref B s = Inr k \<longrightarrow>
        fst (nextId B s st) =
          Inr (num_succ B (case doc_get (counters st) k of
                  None \<Rightarrow> Fin 0
                | Some d \<Rightarrow> js_Number B (js_or (get_prop d ''value'') (Num (Fin 0)))))
        \<and> (\<forall>d n. doc_get (counters st) k = Some d \<and> get_prop d ''value'' = Num (Fin n)
                \<and> - 9007199254740992 \<le> n \<and> n < 9007199254740992
              \<longrightarrow> fst (nextId B s st) = Inr (Fin (n + 1)))
        \<and> (doc_get (counters st) k = None
              \<longrightarrow> fst (nextId B s st) = Inr (Fin 1)
                  \<and> doc_get (counters (snd (nextId B s st))) k = Some [(''value'', Num (Fin 1))])
        \<and> (\<exists>v d'. fst (nextId B s st) = Inr v
                \<and> doc_get (counters (snd (nextId B s st))) k = Some d'
                \<and> get_prop d' ''value'' = Num v)
        \<and> (\<forall>k'. k' \<noteq> k \<longrightarrow> doc_get (counters (snd (nextId B s st))) k' = doc_get (counters st) k'))
   \<and> user_col (snd (nextId B s st)) = user_col st
   \<and> addr_col (snd (nextId B s st)) = addr_col st
   \<and> rider_col (snd (nextId B s st)) = rider_col st"
proof -
  have t: "\<forall>e. doc_ref B s = Inl e \<longrightarrow> nextId B s st = (Inl e, st)"
    by (simp add: nextId_throws)
  have p: "plain_id s \<longrightarrow> doc_ref B s = Inr s"
    by (simp add: doc_ref_plain)
  have r: "\<forall>k. doc_ref B s = Inr k \<longrightarrow>
        fst (nextId B s st) =
          Inr (num_succ B (case doc_get (counters st) k of
                  None \<Rightarrow> Fin 0
                | Some d \<Rightarrow> js_Number B (js_or (get_prop d ''value'') (Num (Fin 0)))))
        \<and> (\<forall>d n. doc_get (counters st) k = Some d \<and> get_prop d ''value'' = Num (Fin n)
                \<and> - 9007199254740992 \<le> n \<and> n < 9007199254740992
              \<longrightarrow> fst (nextId B s st) = Inr (Fin (n + 1)))
        \<and> (doc_get (counters st) k = None
              \<longrightarrow> fst (nextId B s st) = Inr (Fin 1)
                  \<and> doc_get (counters (snd (nextId B s st))) k = Some [(''value'', Num (Fin 1))])
        \<and> (\<exists>v d'. fst (nextId B s st) = Inr v
                \<and> doc_get (counters (snd (nextId B s st))) k = Some d'
                \<and> get_prop d' ''value'' = Num v)
        \<and> (\<forall>k'. k' \<noteq> k \<longrightarrow> doc_get (counters (snd (nextId B s st))) k' = doc_get (counters st) k')"
  proof (intro allI impI)
    fix k assume k: "doc_ref B s = Inr k"
    let ?cur = "case doc_get (counters st) k of
                  None \<Rightarrow> Fin 0
                | Some d \<Rightarrow> js_Number B (js_or (get_prop d ''value'') (Num (Fin 0)))"
    have a: "fst (nextId B s st) = Inr (num_succ B ?cur)"
      using k by (rule nextId_fst)
    have b: "\<forall>d n. doc_get (counters st) k = Some d \<and> get_prop d ''value'' = Num (Fin n)
                \<and> - 9007199254740992 \<le> n \<and> n < 9007199254740992
              \<longrightarrow> fst (nextId B s st) = Inr (Fin (n + 1))"
      by (simp add: a current_of_int num_succ_safe)
    have c: "doc_get (counters st) k = None
              \<longrightarrow> fst (nextId B s st) = Inr (Fin 1)
                  \<and> doc_get (counters (snd (nextId B s st))) k = Some [(''value'', Num (Fin 1))]"
    proof
      assume n: "doc_get (counters st) k = None"
      then have v: "fst (nextId B s st) = Inr (Fin 1)"
        by (simp add: a num_succ_safe)
      show "fst (nextId B s st) = Inr (Fin 1)
                  \<and> doc_get (counters (snd (nextId B s st))) k = Some [(''value'', Num (Fin 1))]"
        using n v by (simp add: nextId_counters [OF k v])
    qed
    have d: "\<exists>v d'. fst (nextId B s st) = Inr v
                \<and> doc_get (counters (snd (nextId B s st))) k = Some d'
                \<and> get_prop d' ''value'' = Num v"
      by (cases "doc_get (counters st) k")
         (simp_all add: a nextId_counters [OF k a] get_prop_update, simp add: get_prop_def)
    have e: "\<forall>k'. k' \<noteq> k \<longrightarrow> doc_get (counters (snd (nextId B s st))) k' = doc_get (counters st) k'"
      by (simp add: nextId_counters [OF k a])
    from a b c d e show "fst (nextId B s st) = Inr (num_succ B ?cur)
        \<and> (\<forall>d n. doc_get (counters st) k = Some d \<and> get_prop d ''value'' = Num (Fin n)
                \<and> - 9007199254740992 \<le> n \<and> n < 9007199254740992
              \<longrightarrow> fst (nextId B s st) = Inr (Fin (n + 1)))
        \<and> (doc_get (counters st) k = None
              \<longrightarrow> fst (nextId B s st) = Inr (Fin 1)
                  \<and> doc_get (counters (snd (nextId B s st))) k = Some [(''value'', Num (Fin 1))])
        \<and> (\<exists>v d'. fst (nextId B s st) = Inr v
                \<and> doc_get (counters (snd (nextId B s st))) k = Some d'
                \<and> get_prop d' ''value'' = Num v)
        \<and> (\<forall>k'. k' \<noteq> k \<longrightarrow> doc_get (counters (snd (nextId B s st))) k' = doc_get (counters st) k')"
      by blast
  qed
  from t p r show ?thesis by (simp only: nextId_frame simp_thms)
qed

theorem nextId_allocates_witness:
  "plain_id ''user_seq''
   \<and> fst (nextId example_lib ''user_seq''
        (empty_store\<lparr>counters := [(''user_seq'', [(''value'', Num (Fin 4))])]\<rparr>)) = Inr (Fin 5)
   \<and> fst (nextId example_lib ''user_seq'' empty_store) = Inr (Fin 1)
   \<and> doc_get (counters (snd (nextId example_lib ''user_seq'' empty_store))) ''user_seq''
       = Some [(''value'', Num (Fin 1))]
   \<and> doc_get (counters (snd (nextId example_lib ''user_seq'' empty_store))) ''rider_seq'' = None
   \<and> nextId example_lib [] empty_store
       = (Inl (Error None ''invalid document path'' None), empty_store)"
proof -
  let ?st = "empty_store\<lparr>counters := [(''user_seq'', [(''value'', Num (Fin 4))])]\<rparr>"
  have pl: "plain_id ''user_seq''" by (rule plain_sequences)
  have h4: "doc_get (counters ?st) ''user_seq'' = Some [(''value'', Num (Fin 4))]
            \<and> get_prop [(''value'', Num (Fin 4))] ''value'' = Num (Fin 4)
            \<and> - 9007199254740992 \<le> (4::int) \<and> (4::int) < 9007199254740992"
    by (simp add: doc_get_def get_prop_def)
  have h0: "doc_get (counters empty_store) ''user_seq'' = None"
    by (simp add: empty_store_def doc_get_def)
  have hr: "''rider_seq'' \<noteq> ''user_seq'' \<and> doc_get (counters empty_store) ''rider_seq'' = None"
    by (simp add: empty_store_def doc_get_def)
  have he: "doc_ref example_lib [] = Inl (Error None ''invalid document path'' None)"
    by (simp add: doc_ref_def plain_id_def example_lib_def)
  have k4: "doc_ref example_lib ''user_seq'' = Inr ''user_seq''"
    using nextId_allocates [of example_lib "''user_seq''" ?st] pl by blast
  have "fst (nextId example_lib ''user_seq'' ?st) = Inr (Fin (4 + 1))"
    using nextId_allocates [of example_lib "''user_seq''" ?st] k4 h4 by blast
  moreover have "fst (nextId example_lib ''user_seq'' empty_store) = Inr (Fin 1)
     \<and> doc_get (counters (snd (nextId example_lib ''user_seq'' empty_store))) ''user_seq''
         = Some [(''value'', Num (Fin 1))]"
    using nextId_allocates [of example_lib "''user_seq''" empty_store] k4 h0 by blast
  moreover have "doc_get (counters (snd (nextId example_lib ''user_seq'' empty_store))) ''rider_seq'' = None"
    using nextId_allocates [of example_lib "''user_seq''" empty_store] k4 hr by metis
  moreover have "nextId example_lib [] empty_store
       = (Inl (Error None ''invalid document path'' None), empty_store)"
    using nextId_allocates [of example_lib "[]" empty_store] he by blast
  ultimately show ?thesis using pl by simp
qed

section \<open>The counter invariant\<close>

lemma list_all_update:
  "list_all P al \<Longrightarrow> P (k, v) \<Longrightarrow> list_all P (AList.update k v al)"
  by (induction al) auto

lemma is_count_cases:
  "is_count v \<Longrightarrow> \<exists>n. v = Num (Fin n) \<and> 0 \<le> n \<and> n \<le> 9007199254740992"
  by (auto simp: is_count_def split: jsval.splits jsnum.splits)

lemma counters_ok_lookup:
  assumes "counters_ok st" and "doc_get (counters st) k = Some d"
  shows "\<exists>n. get_prop d ''value'' = Num (Fin n) \<and> 0 \<le> n \<and> n \<le> 9007199254740992"
proof -
  from assms(2) have "(k, d) \<in> set (counters st)"
    by (simp add: doc_get_def map_of_SomeD)
  with assms(1) have "is_count (get_prop d ''value'')"
    by (auto simp: counters_ok_def list_all_iff)
  then show ?thesis by (rule is_count_cases)
qed

lemma counter_value_range:
  assumes "counters_ok st"
  shows "0 \<le> counter_value st k \<and> counter_value st k \<le> 9007199254740992"
proof (cases "doc_get (counters st) k")
  case None
  then show ?thesis by (simp add: counter_value_def)
next
  case (Some d)
  with assms obtain n where "get_prop d ''value'' = Num (Fin n)" "0 \<le> n" "n \<le> 9007199254740992"
    using counters_ok_lookup by blast
  with Some show ?thesis by (simp add: counter_value_def)
qed

lemma nextId_value:
  assumes "counters_ok st" and "doc_ref B s = Inr k"
  shows "fst (nextId B s st) = Inr (Fin (bump (counter_value st k)))"
proof (cases "doc_get (counters st) k")
  case None
  then show ?thesis
    by (simp add: nextId_fst [OF assms(2)] counter_value_def num_succ_safe bump_def)
next
  case (Some d)
  with assms obtain n where n: "get_prop d ''value'' = Num (Fin n)" "0 \<le> n" "n \<le> 9007199254740992"
    using counters_ok_lookup by blast
  with Some show ?thesis
    by (simp add: nextId_fst [OF assms(2)] counter_value_def current_of_int num_succ_def safe_def
          bump_def)
qed

lemma counter_value_nextId:
  assumes "counters_ok st" and "doc_ref B s = Inr k"
  shows "counter_value (snd (nextId B s st)) k' =
           (if k' = k then bump (counter_value st k) else counter_value st k')"
proof -
  note v = nextId_value [OF assms]
  show ?thesis
  proof (cases "k' = k")
    case False
    then show ?thesis by (simp add: counter_value_def nextId_counters [OF assms(2) v])
  next
    case True
    then show ?thesis
      by (cases "doc_get (counters st) k")
         (simp_all add: counter_value_def [of "snd (nextId B s st)"]
            nextId_counters [OF assms(2) v] get_prop_update, simp add: get_prop_def)
  qed
qed

lemma nextId_ok:
  assumes "counters_ok st"
  shows "counters_ok (snd (nextId B s st))"
proof (cases "doc_ref B s")
  case (Inl e)
  then show ?thesis using assms by (simp add: nextId_throws)
next
  case (Inr k)
  note v = nextId_value [OF assms Inr]
  have "0 \<le> bump (counter_value st k) \<and> bump (counter_value st k) \<le> 9007199254740992"
    using counter_value_range [OF assms, of k] by (simp add: bump_def)
  then have cnt: "is_count (Num (Fin (bump (counter_value st k))))"
    by (simp add: is_count_def)
  show ?thesis
  proof (cases "doc_get (counters st) k")
    case None
    then have "counters (snd (nextId B s st)) =
        AList.update k [(''value'', Num (Fin (bump (counter_value st k))))] (counters st)"
      using v by (simp add: nextId_def Let_def doc_set_def Inr)
    with assms cnt show ?thesis
      by (simp add: counters_ok_def list_all_update get_prop_def)
  next
    case (Some d)
    then have "counters (snd (nextId B s st)) =
        AList.update k (AList.update ''value'' (Num (Fin (bump (counter_value st k)))) d) (counters st)"
      using v by (simp add: nextId_def Let_def doc_update_def doc_get_def spread_single Inr)
    with assms cnt show ?thesis
      by (simp add: counters_ok_def list_all_update get_prop_update)
  qed
qed

lemma grows_refl: "counters_ok st \<Longrightarrow> grows st st"
  by (simp add: grows_def)

lemma grows_trans: "grows a b \<Longrightarrow> grows b c \<Longrightarrow> grows a c"
  by (auto simp: grows_def intro: order_trans)

lemma grows_nextId:
  assumes "counters_ok st"
  shows "grows st (snd (nextId B s st))"
proof (cases "doc_ref B s")
  case (Inl e)
  then show ?thesis using assms by (simp add: nextId_throws grows_refl)
next
  case (Inr k)
  show ?thesis
    using assms by (simp add: grows_def nextId_ok counter_value_nextId [OF assms Inr] bump_def)
qed

lemma grows_cong: "counters st' = counters st'' \<Longrightarrow> grows st st' \<Longrightarrow> grows st st''"
  by (simp add: grows_def counters_ok_def counter_value_def)

lemma grows_ok: "grows a b \<Longrightarrow> counters_ok b"
  by (simp add: grows_def)

lemma grows_via_nextId:
  assumes "counters_ok st"
    and "counters st' = counters st \<or> counters st' = counters (snd (nextId B q st))"
  shows "grows st st'"
proof -
  from assms(2) show ?thesis
  proof
    assume "counters st' = counters st"
    then show ?thesis using grows_cong [of st st' st] grows_refl [OF assms(1)] by simp
  next
    assume "counters st' = counters (snd (nextId B q st))"
    then show ?thesis
      using grows_cong [of "snd (nextId B q st)" st' st] grows_nextId [OF assms(1)] by simp
  qed
qed

lemma createUser_counters:
  "counters (snd (createUser B name password phone picture role st)) = counters st
   \<or> counters (snd (createUser B name password phone picture role st))
       = counters (snd (nextId B ''user_seq'' st))"
  by (auto simp: createUser_def Let_def split: sum.splits prod.splits)

lemma createAddress_counters:
  "counters (snd (createAddress B user_id address lat lng st)) = counters st
   \<or> counters (snd (createAddress B user_id address lat lng st))
       = counters (snd (nextId B ''address_seq'' st))"
  by (auto simp: createAddress_def Let_def split: sum.splits prod.splits)

lemma createRiderCar_counters:
  "counters (snd (createRiderCar B user_id image_car plate_number car_type st)) = counters st
   \<or> counters (snd (createRiderCar B user_id image_car plate_number car_type st))
       = counters (snd (nextId B ''rider_seq'' st))"
  by (auto simp: createRiderCar_def Let_def split: sum.splits prod.splits)

lemma grows_createUser:
  "counters_ok st \<Longrightarrow> grows st (snd (createUser B name password phone picture role st))"
  by (erule grows_via_nextId) (rule createUser_counters)

lemma grows_createAddress:
  "counters_ok st \<Longrightarrow> grows st (snd (createAddress B user_id address lat lng st))"
  by (erule grows_via_nextId) (rule createAddress_counters)

lemma grows_createRiderCar:
  "counters_ok st \<Longrightarrow> grows st (snd (createRiderCar B user_id image_car plate_number car_type st))"
  by (erule grows_via_nextId) (rule createRiderCar_counters)

lemma register_user_snd:
  "snd (register_user B body st) =
     snd (createUser B (get_prop body ''name'') (get_prop body ''password'') (get_prop body ''phone'')
            (get_prop body ''picture'') (Num (Fin 0)) st)"
  by (simp add: register_user_def split: prod.splits sum.splits)

lemma register_rider_snd:
  "snd (register_rider B body st) =
     (case createUser B (get_prop body ''name'') (get_prop body ''password'') (get_prop body ''phone'')
             (get_prop body ''picture'') (Num (Fin 1)) st of
        (Inl e, st1) \<Rightarrow> st1
      | (Inr user, st1) \<Rightarrow>
          snd (createRiderCar B (get_prop user ''id'') (get_prop body ''image_car'')
                 (get_prop body ''plate_number'') (get_prop body ''car_type'') st1))"
  by (simp add: register_rider_def split: prod.splits sum.splits)

lemma grows_register_rider:
  assumes "counters_ok st"
  shows "grows st (snd (register_rider B body st))"
proof -
  let ?c = "createUser B (get_prop body ''name'') (get_prop body ''password'') (get_prop body ''phone'')
             (get_prop body ''picture'') (Num (Fin 1)) st"
  have g1: "grows st (snd ?c)" using assms by (rule grows_createUser)
  obtain r st1 where c: "?c = (r, st1)" by (cases ?c)
  show ?thesis
  proof (cases r)
    case (Inl e)
    with c have "snd (register_rider B body st) = snd ?c"
      by (simp add: register_rider_snd)
    with g1 show ?thesis by simp
  next
    case (Inr user)
    with c have eq: "snd (register_rider B body st) =
        snd (createRiderCar B (get_prop user ''id'') (get_prop body ''image_car'')
                 (get_prop body ''plate_number'') (get_prop body ''car_type'') (snd ?c))"
      by (simp add: register_rider_snd)
    have "grows (snd ?c) (snd (register_rider B body st))"
      unfolding eq using grows_ok [OF g1] by (rule grows_createRiderCar)
    with g1 show ?thesis by (rule grows_trans)
  qed
qed

lemma grows_perform: "counters_ok st \<Longrightarrow> grows st (perform B x st)"
proof (cases x)
  case (OpDeleteUser ident)
  assume "counters_ok st"
  then have "grows st st" by (rule grows_refl)
  moreover have "counters st = counters (perform B x st)"
    by (simp add: OpDeleteUser delete_user_def split: option.splits sum.splits)
  ultimately show ?thesis using grows_cong by blast
qed (simp_all add: grows_nextId grows_createUser grows_createAddress grows_createRiderCar
       register_user_snd grows_register_rider grows_refl)

lemma grows_run: "counters_ok st \<Longrightarrow> grows st (run B xs st)"
proof (induction xs arbitrary: st)
  case Nil
  then show ?case by (simp add: grows_refl)
next
  case (Cons x xs)
  have a: "grows st (perform B x st)" using Cons.prems by (rule grows_perform)
  have "grows (perform B x st) (run B xs (perform B x st))"
    using grows_ok [OF a] by (rule Cons.IH)
  with a show ?case by (simp add: grows_trans)
qed

text \<open>
  C2, as the claim states it, fails at a counter that holds \<open>2^53\<close>: the allocation
  succeeds, returns \<open>2^53\<close> again and leaves the stored value as it was, since
  \<open>2^53 + 1\<close> is not a double.
\<close>

theorem counter_stuck_at_top:
  "counter_value (empty_store\<lparr>counters := [(''user_seq'', [(''value'', Num (Fin 9007199254740992))])]\<rparr>)
      ''user_seq'' = 9007199254740992
   \<and> fst (nextId example_lib ''user_seq''
        (empty_store\<lparr>counters := [(''user_seq'', [(''value'', Num (Fin 9007199254740992))])]\<rparr>))
      = Inr (Fin 9007199254740992)
   \<and> counter_value (snd (nextId example_lib ''user_seq''
        (empty_store\<lparr>counters := [(''user_seq'', [(''value'', Num (Fin 9007199254740992))])]\<rparr>)))
      ''user_seq'' = 9007199254740992"
  by (simp add: nextId_def doc_ref_sequences Let_def doc_get_def doc_update_def spread_single
        get_prop_def js_or_def num_succ_top counter_value_def)

text \<open>
  C2, amended. Starting from a store whose counter documents hold integers from 0 to
  \<open>2^53\<close> (the empty store is one), every run of operations leaves each counter
  document holding such an integer; no counter value decreases over the run (an absent
  counter counting as 0); and an allocation after the run on a counter that is below
  \<open>2^53\<close> returns the value plus 1, raises the stored value by exactly 1 and leaves
  every other counter as it was.
\<close>

theorem counter_monotone:
  assumes "counters_ok st"
  shows "counters_ok (run B xs st)
    \<and> (\<forall>d. doc_get (counters (run B xs st)) k = Some d
           \<longrightarrow> (\<exists>n. get_prop d ''value'' = Num (Fin n) \<and> 0 \<le> n \<and> n \<le> 9007199254740992))
    \<and> counter_value st k \<le> counter_value (run B xs st) k
    \<and> (doc_ref B s = Inr k \<and> counter_value (run B xs st) k < 9007199254740992 \<longrightarrow>
         fst (nextId B s (run B xs st)) = Inr (Fin (counter_value (run B xs st) k + 1))
         \<and> counter_value (snd (nextId B s (run B xs st))) k = counter_value (run B xs st) k + 1
         \<and> (\<forall>k'. k' \<noteq> k \<longrightarrow>
               counter_value (snd (nextId B s (run B xs st))) k' = counter_value (run B xs st) k'))"
proof -
  have g: "grows st (run B xs st)" using assms by (rule grows_run)
  then have ok: "counters_ok (run B xs st)" by (rule grows_ok)
  have mono: "counter_value st k \<le> counter_value (run B xs st) k"
    using g by (simp add: grows_def)
  have look: "\<forall>d. doc_get (counters (run B xs st)) k = Some d
           \<longrightarrow> (\<exists>n. get_prop d ''value'' = Num (Fin n) \<and> 0 \<le> n \<and> n \<le> 9007199254740992)"
    using counters_ok_lookup [OF ok] by blast
  have alloc: "doc_ref B s = Inr k \<and> counter_value (run B xs st) k < 9007199254740992 \<longrightarrow>
         fst (nextId B s (run B xs st)) = Inr (Fin (counter_value (run B xs st) k + 1))
         \<and> counter_value (snd (nextId B s (run B xs st))) k = counter_value (run B xs st) k + 1
         \<and> (\<forall>k'. k' \<noteq> k \<longrightarrow>
               counter_value (snd (nextId B s (run B xs st))) k' = counter_value (run B xs st) k')"
  proof
    assume h: "doc_ref B s = Inr k \<and> counter_value (run B xs st) k < 9007199254740992"
    then have r: "doc_ref B s = Inr k" by simp
    from h show "fst (nextId B s (run B xs st)) = Inr (Fin (counter_value (run B xs st) k + 1))
         \<and> counter_value (snd (nextId B s (run B xs st))) k = counter_value (run B xs st) k + 1
         \<and> (\<forall>k'. k' \<noteq> k \<longrightarrow>
               counter_value (snd (nextId B s (run B xs st))) k' = counter_value (run B xs st) k')"
      by (simp add: nextId_value [OF ok r] counter_value_nextId [OF ok r] bump_def)
  qed
  from ok look mono alloc show ?thesis by blast
qed

theorem counter_monotone_witness:
  "counters_ok empty_store
   \<and> counter_value (run example_lib [OpRegisterRider [(''name'', Str ''A''), (''password'', Str ''x''),
          (''phone'', Str ''0800000001''), (''plate_number'', Str ''AB 12''), (''car_type'', Str ''car'')],
        OpNextId ''user_seq''] empty_store) ''user_seq'' = 2
   \<and> fst (nextId example_lib ''user_seq'' (run example_lib [OpRegisterRider [(''name'', Str ''A''),
          (''password'', Str ''x''), (''phone'', Str ''0800000001''), (''plate_number'', Str ''AB 12''),
          (''car_type'', Str ''car'')],
        OpNextId ''user_seq''] empty_store)) = Inr (Fin 3)"
proof -
  let ?xs = "[OpRegisterRider [(''name'', Str ''A''), (''password'', Str ''x''),
          (''phone'', Str ''0800000001''), (''plate_number'', Str ''AB 12''), (''car_type'', Str ''car'')],
        OpNextId ''user_seq'']"
  have h: "counters_ok empty_store"
    by (simp add: counters_ok_def empty_store_def)
  have v: "counter_value (run example_lib ?xs empty_store) ''user_seq'' = 2"
    by code_simp
  have r: "doc_ref example_lib ''user_seq'' = Inr ''user_seq''"
    by (rule doc_ref_sequences)
  show ?thesis
    using h v r counter_monotone [OF h, of example_lib ?xs "''user_seq''" "''user_seq''"] by simp
qed

section \<open>Allocations in sequence\<close>

text \<open>Two allocations on the same sequence, with any operations run between them, return
  different numbers while the counter is below \<open>2^53\<close>: the later one is larger.\<close>

lemma allocations_increase:
  assumes "counters_ok st" and "doc_ref B s = Inr k"
    and "counter_value (run B xs (snd (nextId B s st))) k < 9007199254740992"
  shows "\<exists>a b. fst (nextId B s st) = Inr (Fin a)
           \<and> fst (nextId B s (run B xs (snd (nextId B s st)))) = Inr (Fin b) \<and> a < b"
proof -
  let ?st1 = "snd (nextId B s st)"
  have ok1: "counters_ok ?st1" using assms(1) by (rule nextId_ok)
  have g: "grows ?st1 (run B xs ?st1)" using ok1 by (rule grows_run)
  then have ok2: "counters_ok (run B xs ?st1)" by (rule grows_ok)
  have le: "counter_value ?st1 k \<le> counter_value (run B xs ?st1) k"
    using g by (simp add: grows_def)
  have v1: "counter_value ?st1 k = bump (counter_value st k)"
    by (simp add: counter_value_nextId [OF assms(1,2)])
  have a: "fst (nextId B s st) = Inr (Fin (bump (counter_value st k)))"
    using assms(1,2) by (rule nextId_value)
  have b: "fst (nextId B s (run B xs ?st1)) = Inr (Fin (counter_value (run B xs ?st1) k + 1))"
    using assms(3) by (simp add: nextId_value [OF ok2 assms(2)] bump_def)
  have "bump (counter_value st k) < counter_value (run B xs ?st1) k + 1"
    using le v1 by simp
  with a b show ?thesis by blast
qed

section \<open>Creating users\<close>

lemma normalizeRoleInt_cases:
  "normalizeRoleInt B role =
     (if js_Number B (js_nullish role (Num (Fin 0))) = Fin 0 then Inr (Fin 0)
      else if js_Number B (js_nullish role (Num (Fin 0))) = Fin 1 then Inr (Fin 1)
      else Inl (Error (Some 400) ''role must be 0 or 1'' None))"
  by (simp add: normalizeRoleInt_def Let_def)

lemma createUser_missing:
  "\<not> truthy name \<or> \<not> truthy password \<or> \<not> truthy phone \<Longrightarrow>
   createUser B name password phone picture role st =
     (Inl (Error (Some 400) ''name, password, phone are required'' None), st)"
  by (simp add: createUser_def)

lemma createUser_bad_role:
  assumes "js_Number B (js_nullish role (Num (Fin 0))) \<noteq> Fin 0"
    and "js_Number B (js_nullish role (Num (Fin 0))) \<noteq> Fin 1"
  shows "\<exists>e. createUser B name password phone picture role st = (Inl e, st) \<and> err_code e = Some 400"
  using assms by (simp add: createUser_def normalizeRoleInt_cases)

lemma nextId_sequence_ok:
  "\<exists>v. fst (nextId B ''user_seq'' st) = Inr v"
  "\<exists>v. fst (nextId B ''address_seq'' st) = Inr v"
  "\<exists>v. fst (nextId B ''rider_seq'' st) = Inr v"
  by (simp_all add: nextId_fst [OF doc_ref_sequences(1)] nextId_fst [OF doc_ref_sequences(2)]
        nextId_fst [OF doc_ref_sequences(3)])

lemma createUser_success:
  assumes "truthy name" "truthy password" "truthy phone"
    and "normalizeRoleInt B role = Inr r"
    and "where_phone (user_col st) (js_String B phone) = None"
    and "fst (nextId B ''user_seq'' st) = Inr v"
  shows "createUser B name password phone picture role st =
     (Inr (spread [(''id'', Str (num_to_string B v))]
             (user_data B v name password phone picture r)),
      (snd (nextId B ''user_seq'' st))
        \<lparr>user_col := doc_set (user_col st) (num_to_string B v)
            (user_data B v name password phone picture r)\<rparr>)"
  using assms
  by (simp add: createUser_def assertPhoneNotDuplicate_def Let_def case_prod_beta nextId_frame)

lemma user_data_fields:
  "get_prop (user_data B idNum name password phone picture r) ''role'' = Num r"
  "get_prop (user_data B idNum name password phone picture r) ''name'' = Str (js_String B name)"
  "get_prop (user_data B idNum name password phone picture r) ''phone'' = Str (js_String B phone)"
  by (simp_all add: user_data_def get_prop_def)

lemma user_fields:
  "get_prop (spread [(''id'', Str i)] (user_data B x name password phone picture r)) ''id'' = Str i"
  "get_prop (spread [(''id'', Str i)] (user_data B x name password phone picture r)) ''role'' = Num r"
  by (simp_all add: spread_def user_data_def get_prop_def)

text \<open>
  C5. \<^verbatim>\<open>createUser\<close> fails with code 400, and leaves the store as it was, when
  \<^verbatim>\<open>name\<close>, \<^verbatim>\<open>password\<close> or \<^verbatim>\<open>phone\<close> is falsy (missing or empty), and when the
  role, normalised by \<^verbatim>\<open>Number(role ?? 0)\<close>, is neither 0 nor 1: in particular for
  every number other than 0 and 1. With the required fields present, no user holding
  the phone and no role given, the call succeeds and the user returned and the user
  stored have role 0.
\<close>

theorem createUser_validation:
  "(\<not> truthy name \<or> \<not> truthy password \<or> \<not> truthy phone \<longrightarrow>
      (\<exists>e. createUser B name password phone picture role st = (Inl e, st) \<and> err_code e = Some 400))
   \<and> (js_Number B (js_nullish role (Num (Fin 0))) \<noteq> Fin 0
        \<and> js_Number B (js_nullish role (Num (Fin 0))) \<noteq> Fin 1 \<longrightarrow>
      (\<exists>e. createUser B name password phone picture role st = (Inl e, st) \<and> err_code e = Some 400))
   \<and> (\<forall>x. x \<noteq> Fin 0 \<and> x \<noteq> Fin 1 \<longrightarrow>
      (\<exists>e. createUser B name password phone picture (Num x) st = (Inl e, st) \<and> err_code e = Some 400))
   \<and> (truthy name \<and> truthy password \<and> truthy phone
        \<and> where_phone (user_col st) (js_String B phone) = None \<longrightarrow>
      (\<exists>u st'. createUser B name password phone picture Undefined st = (Inr u, st')
          \<and> get_prop u ''role'' = Num (Fin 0)
          \<and> (\<exists>d. doc_get (user_col st') (js_String B (get_prop u ''id'')) = Some d
                 \<and> get_prop d ''role'' = Num (Fin 0))))"
proof -
  have a: "\<not> truthy name \<or> \<not> truthy password \<or> \<not> truthy phone \<longrightarrow>
      (\<exists>e. createUser B name password phone picture role st = (Inl e, st) \<and> err_code e = Some 400)"
    by (auto simp: createUser_missing)
  have b: "js_Number B (js_nullish role (Num (Fin 0))) \<noteq> Fin 0
        \<and> js_Number B (js_nullish role (Num (Fin 0))) \<noteq> Fin 1 \<longrightarrow>
      (\<exists>e. createUser B name password phone picture role st = (Inl e, st) \<and> err_code e = Some 400)"
    using createUser_bad_role by blast
  have c: "\<forall>x. x \<noteq> Fin 0 \<and> x \<noteq> Fin 1 \<longrightarrow>
      (\<exists>e. createUser B name password phone picture (Num x) st = (Inl e, st) \<and> err_code e = Some 400)"
    by (auto intro!: createUser_bad_role simp: js_nullish_def)
  have e: "truthy name \<and> truthy password \<and> truthy phone
        \<and> where_phone (user_col st) (js_String B phone) = None \<longrightarrow>
      (\<exists>u st'. createUser B name password phone picture Undefined st = (Inr u, st')
          \<and> get_prop u ''role'' = Num (Fin 0)
          \<and> (\<exists>d. doc_get (user_col st') (js_String B (get_prop u ''id'')) = Some d
                 \<and> get_prop d ''role'' = Num (Fin 0)))"
  proof
    assume h: "truthy name \<and> truthy password \<and> truthy phone
        \<and> where_phone (user_col st) (js_String B phone) = None"
    have r: "normalizeRoleInt B Undefined = Inr (Fin 0)"
      by (simp add: normalizeRoleInt_cases js_nullish_def)
    obtain v where v: "fst (nextId B ''user_seq'' st) = Inr v"
      using nextId_sequence_ok(1) by blast
    from h show "\<exists>u st'. createUser B name password phone picture Undefined st = (Inr u, st')
          \<and> get_prop u ''role'' = Num (Fin 0)
          \<and> (\<exists>d. doc_get (user_col st') (js_String B (get_prop u ''id'')) = Some d
                 \<and> get_prop d ''role'' = Num (Fin 0))"
      by (simp add: createUser_success [OF _ _ _ r _ v] user_fields doc_get_set user_data_fields)
  qed
  from a b c e show ?thesis by blast
qed

theorem createUser_validation_witness:
  "\<not> truthy (Str [])
   \<and> (\<exists>e. createUser example_lib (Str []) (Str ''x'') (Str ''1'') Undefined Undefined empty_store
            = (Inl e, empty_store) \<and> err_code e = Some 400)
   \<and> (\<exists>e. createUser example_lib (Str ''A'') (Str ''x'') (Str ''1'') Undefined (Num (Fin 2)) empty_store
            = (Inl e, empty_store) \<and> err_code e = Some 400)
   \<and> (\<exists>e. createUser example_lib (Str ''A'') (Str ''x'') (Str ''1'') Undefined (Str ''7'') empty_store
            = (Inl e, empty_store) \<and> err_code e = Some 400)
   \<and> (\<exists>u st'. createUser example_lib (Str ''A'') (Str ''x'') (Str ''1'') Undefined Undefined empty_store
            = (Inr u, st') \<and> get_prop u ''role'' = Num (Fin 0))"
proof -
  have h1: "\<not> truthy (Str [])" by simp
  have h2: "Fin 2 \<noteq> Fin 0 \<and> Fin 2 \<noteq> Fin 1" by simp
  have h3: "truthy (Str ''A'') \<and> truthy (Str ''x'') \<and> truthy (Str ''1'')
            \<and> where_phone (user_col empty_store) (js_String example_lib (Str ''1'')) = None"
    by (simp add: where_phone_def empty_store_def)
  have n7: "js_Number example_lib (js_nullish (Str ''7'') (Num (Fin 0))) = Fin 7"
    by code_simp
  then have h4: "js_Number example_lib (js_nullish (Str ''7'') (Num (Fin 0))) \<noteq> Fin 0
      \<and> js_Number example_lib (js_nullish (Str ''7'') (Num (Fin 0))) \<noteq> Fin 1"
    by simp
  have a: "\<exists>e. createUser example_lib (Str []) (Str ''x'') (Str ''1'') Undefined Undefined empty_store
            = (Inl e, empty_store) \<and> err_code e = Some 400"
    using createUser_validation [of "Str []" "Str ''x''" "Str ''1''" example_lib Undefined Undefined empty_store] h1
    by blast
  have b: "\<exists>e. createUser example_lib (Str ''A'') (Str ''x'') (Str ''1'') Undefined (Num (Fin 2)) empty_store
            = (Inl e, empty_store) \<and> err_code e = Some 400"
    using createUser_validation [of "Str ''A''" "Str ''x''" "Str ''1''" example_lib Undefined Undefined empty_store] h2
    by blast
  have b': "\<exists>e. createUser example_lib (Str ''A'') (Str ''x'') (Str ''1'') Undefined (Str ''7'') empty_store
            = (Inl e, empty_store) \<and> err_code e = Some 400"
    using createUser_validation [of "Str ''A''" "Str ''x''" "Str ''1''" example_lib Undefined "Str ''7''" empty_store] h4
    by blast
  have c: "\<exists>u st'. createUser example_lib (Str ''A'') (Str ''x'') (Str ''1'') Undefined Undefined empty_store
            = (Inr u, st') \<and> get_prop u ''role'' = Num (Fin 0)"
    using createUser_validation [of "Str ''A''" "Str ''x''" "Str ''1''" example_lib Undefined Undefined empty_store] h3
    by blast
  from h1 a b b' c show ?thesis by blast
qed

section \<open>The duplicate guard\<close>

lemma createUser_simple_conflict:
  assumes "truthy name" "truthy password" "truthy phone"
    and "role = Undefined \<or> js_Number B role = Fin 0 \<or> js_Number B role = Fin 1"
    and "where_phone (user_col st) (js_String B phone) = Some (k, u)"
  shows "createUser_simple B name password phone picture role autoId st =
     (Inl (Error (Some 409) ''phone already exists''
             (Some [(''id'', Str k), (''phone'', get_prop u ''phone''), (''name'', get_prop u ''name'')])),
      st)"
  using assms by (auto simp: createUser_simple_def assertPhoneNotDuplicate_simple_def Let_def)

lemma createUser_conflict:
  assumes "truthy name" "truthy password" "truthy phone"
    and "normalizeRoleInt B role = Inr r"
    and "where_phone (user_col st) (js_String B phone) = Some (k, u)"
  shows "createUser B name password phone picture role st =
     (Inl (Error (Some 409) ''phone already exists'' (Some (spread [(''id'', Str k)] u))), st)"
  using assms by (simp add: createUser_def assertPhoneNotDuplicate_def)

lemma num_to_string_1: "num_to_string B (Fin 1) = ''1''"
proof -
  have "show_int 1 = ''1''" by code_simp
  then show ?thesis by (simp add: num_to_string_def safe_def)
qed

lemma nextId_first: "fst (nextId B ''user_seq'' empty_store) = Inr (Fin 1)"
  by (simp add: nextId_fst [OF doc_ref_sequences(1)] empty_store_def doc_get_def num_succ_safe)

lemma normalizeRoleInt_passenger: "normalizeRoleInt B (Num (Fin 0)) = Inr (Fin 0)"
  by (simp add: normalizeRoleInt_cases js_nullish_def)

lemma first_registration:
  "createUser B (Str ''A'') (Str ''x'') (Str ''0800000001'') Undefined (Num (Fin 0)) empty_store =
     (Inr [(''id'', Str ''1''), (''user_id'', Num (Fin 1)), (''name'', Str ''A''),
           (''password'', Str ''x''), (''phone'', Str ''0800000001''), (''picture'', Null),
           (''role'', Num (Fin 0))],
      (snd (nextId B ''user_seq'' empty_store))
        \<lparr>user_col := [(''1'', [(''user_id'', Num (Fin 1)), (''name'', Str ''A''),
           (''password'', Str ''x''), (''phone'', Str ''0800000001''), (''picture'', Null),
           (''role'', Num (Fin 0))])]\<rparr>)"
proof -
  have w: "where_phone (user_col empty_store) (js_String B (Str ''0800000001'')) = None"
    by (simp add: where_phone_def empty_store_def)
  have u: "user_col empty_store = []" by (simp add: empty_store_def)
  show ?thesis
    by (simp add: createUser_success [OF _ _ _ normalizeRoleInt_passenger w nextId_first]
          num_to_string_1 user_data_def spread_def doc_set_def u)
qed

text \<open>
  C4. In the variant with sequential ids, registering the phone \<open>0800000001\<close> for the
  first time answers 201; registering it a second time answers 409, and the body of that
  answer spreads the whole stored document of the existing user, the password included,
  beside its id, name and phone.
\<close>

theorem register_user_conflict_payload:
  "fst (register_user B [(''name'', Str ''A''), (''password'', Str ''x''), (''phone'', Str ''0800000001'')]
          empty_store)
     = (201, JO [(''user'', JO [(''id'', JV (Str ''1'')), (''user_id'', JV (Num (Fin 1))),
            (''name'', JV (Str ''A'')), (''password'', JV (Str ''x'')),
            (''phone'', JV (Str ''0800000001'')), (''picture'', JV Null),
            (''role'', JV (Num (Fin 0)))])])
   \<and> fst (register_user B [(''name'', Str ''B''), (''password'', Str ''y''), (''phone'', Str ''0800000001'')]
          (snd (register_user B [(''name'', Str ''A''), (''password'', Str ''x''), (''phone'', Str ''0800000001'')]
                  empty_store)))
     = (409, JO [(''error'', JV (Str ''phone already exists'')),
            (''id'', JV (Str ''1'')), (''user_id'', JV (Num (Fin 1))),
            (''name'', JV (Str ''A'')), (''password'', JV (Str ''x'')),
            (''phone'', JV (Str ''0800000001'')), (''picture'', JV Null),
            (''role'', JV (Num (Fin 0)))])"
proof -
  let ?u = "[(''user_id'', Num (Fin 1)), (''name'', Str ''A''),
           (''password'', Str ''x''), (''phone'', Str ''0800000001''), (''picture'', Null),
           (''role'', Num (Fin 0))]"
  let ?st1 = "(snd (nextId B ''user_seq'' empty_store))\<lparr>user_col := [(''1'', ?u)]\<rparr>"
  have one: "register_user B [(''name'', Str ''A''), (''password'', Str ''x''), (''phone'', Str ''0800000001'')]
          empty_store
     = ((201, JO [(''user'', JO [(''id'', JV (Str ''1'')), (''user_id'', JV (Num (Fin 1))),
            (''name'', JV (Str ''A'')), (''password'', JV (Str ''x'')),
            (''phone'', JV (Str ''0800000001'')), (''picture'', JV Null),
            (''role'', JV (Num (Fin 0)))])]), ?st1)"
    by (simp add: register_user_def get_prop_def first_registration of_obj_def List.map_filter_simps)
  have w: "where_phone (user_col ?st1) (js_String B (Str ''0800000001'')) = Some (''1'', ?u)"
    by (simp add: where_phone_def get_prop_def)
  have two: "createUser B (Str ''B'') (Str ''y'') (Str ''0800000001'') Undefined (Num (Fin 0)) ?st1
     = (Inl (Error (Some 409) ''phone already exists'' (Some (spread [(''id'', Str ''1'')] ?u))), ?st1)"
    by (rule createUser_conflict [OF _ _ _ normalizeRoleInt_passenger w]) simp_all
  have "fst (register_user B [(''name'', Str ''B''), (''password'', Str ''y''), (''phone'', Str ''0800000001'')] ?st1)
     = (409, JO [(''error'', JV (Str ''phone already exists'')),
            (''id'', JV (Str ''1'')), (''user_id'', JV (Num (Fin 1))),
            (''name'', JV (Str ''A'')), (''password'', JV (Str ''x'')),
            (''phone'', JV (Str ''0800000001'')), (''picture'', JV Null),
            (''role'', JV (Num (Fin 0)))])"
    by (simp add: register_user_def get_prop_def two error_response_def status_of_def spread_def
          of_obj_def List.map_filter_simps)
  with one show ?thesis by simp
qed

section \<open>Decimal numerals read back\<close>

lemma digit_char_facts:
  assumes "0 \<le> d" "d < 10"
  shows "is_digit (digit_char d)" "digit_val (digit_char d) = d" "\<not> is_space (digit_char d)"
    "digit_char d \<noteq> CHR ''-''" "digit_char d \<noteq> CHR ''+''"
proof -
  have v: "(of_char (digit_char d) :: int) = 48 + d"
    using assms by (simp add: digit_char_def)
  show "is_digit (digit_char d)" using assms by (simp add: is_digit_def v)
  show "digit_val (digit_char d) = d" by (simp add: digit_val_def v)
  show "\<not> is_space (digit_char d)" using assms by (simp add: is_space_def v)
  have "(of_char (digit_char d) :: int) \<noteq> of_char CHR ''-''" using assms by (simp add: v)
  then show "digit_char d \<noteq> CHR ''-''" by auto
  have "(of_char (digit_char d) :: int) \<noteq> of_char CHR ''+''" using assms by (simp add: v)
  then show "digit_char d \<noteq> CHR ''+''" by auto
qed

lemma show_pos_nonempty: "show_pos n \<noteq> []"
  by (subst show_pos.simps) simp

lemma show_pos_digits: "0 \<le> n \<Longrightarrow> list_all is_digit (show_pos n)"
proof (induction n rule: show_pos.induct)
  case (1 n)
  show ?case
  proof (cases "n < 10")
    case True
    with 1 show ?thesis by (subst show_pos.simps) (simp add: digit_char_facts)
  next
    case False
    with 1 show ?thesis by (subst show_pos.simps) (simp add: digit_char_facts)
  qed
qed

lemma parse_digits_snoc: "parse_digits (xs @ [c]) = 10 * parse_digits xs + digit_val c"
  by (simp add: parse_digits_def)

lemma parse_show_pos: "0 \<le> n \<Longrightarrow> parse_digits (show_pos n) = n"
proof (induction n rule: show_pos.induct)
  case (1 n)
  show ?case
  proof (cases "n < 10")
    case True
    with 1 show ?thesis by (subst show_pos.simps) (simp add: parse_digits_def digit_char_facts)
  next
    case False
    with 1 have "parse_digits (show_pos (n div 10)) = n div 10" by simp
    with False 1 show ?thesis
      by (subst show_pos.simps) (simp add: parse_digits_snoc digit_char_facts)
  qed
qed

lemma unsigned_show_pos:
  "0 \<le> n \<Longrightarrow> n \<le> 9007199254740992 \<Longrightarrow> unsigned_number (show_pos n) = Some n"
  by (simp add: unsigned_number_def show_pos_nonempty show_pos_digits parse_show_pos)

lemma digits_no_space: "list_all is_digit xs \<Longrightarrow> list_all (\<lambda>c. \<not> is_space c) xs"
  by (induction xs) (auto simp: is_digit_def is_space_def)

lemma dropWhile_none: "list_all (\<lambda>c. \<not> P c) ys \<Longrightarrow> dropWhile P ys = ys"
  by (cases ys) auto

lemma trim_no_space:
  assumes "list_all (\<lambda>c. \<not> is_space c) xs"
  shows "trim xs = xs"
proof -
  have "list_all (\<lambda>c. \<not> is_space c) (rev xs)"
    using assms by (simp add: list_all_iff)
  then have "dropWhile is_space (rev xs) = rev xs" by (rule dropWhile_none)
  moreover have "dropWhile is_space xs = xs" using assms by (rule dropWhile_none)
  ultimately show ?thesis by (simp add: trim_def)
qed

lemma minus_not_space: "\<not> is_space CHR ''-''"
  by (simp add: is_space_def)

lemma hd_show_pos: "0 \<le> n \<Longrightarrow> \<exists>c cs. show_pos n = c # cs \<and> c \<noteq> CHR ''-'' \<and> c \<noteq> CHR ''+''"
proof (induction n rule: show_pos.induct)
  case (1 n)
  show ?case
  proof (cases "n < 10")
    case True
    with 1 show ?thesis by (subst show_pos.simps) (simp add: digit_char_facts)
  next
    case False
    with 1 obtain c cs where "show_pos (n div 10) = c # cs" "c \<noteq> CHR ''-''" "c \<noteq> CHR ''+''"
      by fastforce
    with False show ?thesis by (subst show_pos.simps) simp
  qed
qed

lemma plain_number_show_int:
  assumes "safe i"
  shows "plain_number (show_int i) = Some i"
proof (cases "i < 0")
  case True
  have ns: "list_all (\<lambda>c. \<not> is_space c) (CHR ''-'' # show_pos (- i))"
    using True by (simp add: minus_not_space digits_no_space show_pos_digits)
  have "trim (show_int i) = CHR ''-'' # show_pos (- i)"
    using True trim_no_space [OF ns] by (simp add: show_int_def)
  moreover have "unsigned_number (show_pos (- i)) = Some (- i)"
    using True assms by (simp add: unsigned_show_pos safe_def)
  ultimately show ?thesis
    by (simp add: plain_number_def)
next
  case False
  have ns: "list_all (\<lambda>c. \<not> is_space c) (show_pos i)"
    using False by (simp add: digits_no_space show_pos_digits)
  have t: "trim (show_int i) = show_pos i"
    using False trim_no_space [OF ns] by (simp add: show_int_def)
  obtain c cs where s: "show_pos i = c # cs" "c \<noteq> CHR ''-''" "c \<noteq> CHR ''+''"
    using False hd_show_pos [of i] by auto
  have "unsigned_number (c # cs) = Some i"
    using unsigned_show_pos [of i] s False assms by (simp add: safe_def)
  with t s show ?thesis
    by (simp add: plain_number_def)
qed

lemma number_of_show_int: "safe i \<Longrightarrow> string_to_number B (show_int i) = Fin i"
  by (simp add: string_to_number_def plain_number_show_int)

section \<open>Foreign keys\<close>

lemma createUser_InrD:
  assumes "createUser B name password phone picture role st = (Inr u, st1)"
  shows "\<exists>r v. fst (nextId B ''user_seq'' st) = Inr v
           \<and> u = spread [(''id'', Str (num_to_string B v))]
                 (user_data B v name password phone picture r)
           \<and> st1 = (snd (nextId B ''user_seq'' st))
                \<lparr>user_col := doc_set (user_col st) (num_to_string B v)
                   (user_data B v name password phone picture r)\<rparr>"
  using assms
  by (auto simp: createUser_def Let_def case_prod_beta nextId_frame split: if_splits sum.splits)

lemma foreign_key_show_int: "safe n \<Longrightarrow> foreign_key B (Str (show_int n)) = Num (Fin n)"
  by (simp add: foreign_key_def js_isNaN_def number_of_show_int)

lemma createAddress_stores:
  assumes "truthy user_id" "truthy address"
  shows "\<exists>rec st'. createAddress B user_id address lat lng st = (Inr rec, st')
     \<and> get_prop rec ''user_id'' = foreign_key B user_id
     \<and> (\<exists>d. doc_get (addr_col st') (js_String B (get_prop rec ''id'')) = Some d
            \<and> get_prop d ''user_id'' = foreign_key B user_id)
     \<and> user_col st' = user_col st"
proof -
  obtain v where v: "fst (nextId B ''address_seq'' st) = Inr v"
    using nextId_sequence_ok(2) by blast
  show ?thesis
    using assms
    by (simp add: createAddress_def Let_def case_prod_beta v spread_def get_prop_def doc_get_set
          nextId_frame)
qed

lemma createRiderCar_stores:
  assumes "truthy user_id" "truthy plate_number" "truthy car_type"
  shows "\<exists>rec st'. createRiderCar B user_id image_car plate_number car_type st = (Inr rec, st')
     \<and> get_prop rec ''user_id'' = foreign_key B user_id
     \<and> (\<exists>d. doc_get (rider_col st') (js_String B (get_prop rec ''id'')) = Some d
            \<and> get_prop d ''user_id'' = foreign_key B user_id)"
proof -
  obtain v where v: "fst (nextId B ''rider_seq'' st) = Inr v"
    using nextId_sequence_ok(3) by blast
  show ?thesis
    using assms
    by (simp add: createRiderCar_def Let_def case_prod_beta v spread_def get_prop_def doc_get_set)
qed

lemma createUser_id_numeric:
  assumes "counters_ok st"
    and "createUser B name password phone picture role st = (Inr u, st1)"
  shows "\<exists>n. get_prop u ''id'' = Str (show_int n)
           \<and> doc_get (user_col st1) (show_int n) \<noteq> None
           \<and> foreign_key B (get_prop u ''id'') = Num (Fin n)"
proof -
  let ?n = "bump (counter_value st ''user_seq'')"
  have v: "fst (nextId B ''user_seq'' st) = Inr (Fin ?n)"
    using assms(1) doc_ref_sequences(1) by (rule nextId_value)
  have s: "safe ?n"
    using counter_value_range [OF assms(1), of "''user_seq''"] by (simp add: bump_def safe_def)
  then have str: "num_to_string B (Fin ?n) = show_int ?n"
    by (simp add: num_to_string_def)
  from createUser_InrD [OF assms(2)] obtain r where
    u: "u = spread [(''id'', Str (show_int ?n))] (user_data B (Fin ?n) name password phone picture r)"
    and st1: "st1 = (snd (nextId B ''user_seq'' st))
                \<lparr>user_col := doc_set (user_col st) (show_int ?n)
                   (user_data B (Fin ?n) name password phone picture r)\<rparr>"
    by (auto simp: v str)
  have "get_prop u ''id'' = Str (show_int ?n)" by (simp add: u user_fields)
  moreover have "doc_get (user_col st1) (show_int ?n) \<noteq> None" by (simp add: st1 doc_get_set)
  ultimately show ?thesis using s by (auto simp: foreign_key_show_int)
qed

text \<open>
  C10. In the variant with sequential ids, \<^verbatim>\<open>createAddress\<close> and \<^verbatim>\<open>createRiderCar\<close>,
  when their required fields are present, store the document with the field
  \<^verbatim>\<open>user_id\<close> set to the number \<^verbatim>\<open>Number(user_id)\<close> when that is not \<open>NaN\<close> and
  to the string \<^verbatim>\<open>String(user_id)\<close> otherwise, whatever \<^verbatim>\<open>Number\<close> makes of the
  value. Every id returned by a successful \<^verbatim>\<open>createUser\<close> (on a store with
  well-formed counters) is the decimal numeral of an integer \<open>n\<close>: the user document is
  stored under that string key, while the foreign key computed from it is the number
  \<open>n\<close>.
\<close>

theorem foreign_key_type:
  "(truthy user_id \<and> truthy address \<longrightarrow>
      (\<exists>rec st'. createAddress B user_id address lat lng st = (Inr rec, st')
         \<and> get_prop rec ''user_id'' = foreign_key B user_id
         \<and> (\<exists>d. doc_get (addr_col st') (js_String B (get_prop rec ''id'')) = Some d
                \<and> get_prop d ''user_id'' = foreign_key B user_id)))
   \<and> (truthy user_id \<and> truthy plate_number \<and> truthy car_type \<longrightarrow>
      (\<exists>rec st'. createRiderCar B user_id image_car plate_number car_type st = (Inr rec, st')
         \<and> get_prop rec ''user_id'' = foreign_key B user_id
         \<and> (\<exists>d. doc_get (rider_col st') (js_String B (get_prop rec ''id'')) = Some d
                \<and> get_prop d ''user_id'' = foreign_key B user_id)))
   \<and> (js_Number B user_id \<noteq> NaN \<longrightarrow> foreign_key B user_id = Num (js_Number B user_id))
   \<and> (js_Number B user_id = NaN \<longrightarrow> foreign_key B user_id = Str (js_String B user_id))
   \<and> (\<forall>s n. user_id = Str s \<and> plain_number s = Some n \<longrightarrow> foreign_key B user_id = Num (Fin n))
   \<and> (\<forall>u st1. counters_ok st \<and> createUser B name password phone picture role st = (Inr u, st1) \<longrightarrow>
        (\<exists>n. get_prop u ''id'' = Str (show_int n)
            \<and> doc_get (user_col st1) (show_int n) \<noteq> None
            \<and> foreign_key B (get_prop u ''id'') = Num (Fin n)))"
proof -
  have a: "truthy user_id \<and> truthy address \<longrightarrow>
      (\<exists>rec st'. createAddress B user_id address lat lng st = (Inr rec, st')
         \<and> get_prop rec ''user_id'' = foreign_key B user_id
         \<and> (\<exists>d. doc_get (addr_col st') (js_String B (get_prop rec ''id'')) = Some d
                \<and> get_prop d ''user_id'' = foreign_key B user_id))"
    using createAddress_stores by blast
  have b: "truthy user_id \<and> truthy plate_number \<and> truthy car_type \<longrightarrow>
      (\<exists>rec st'. createRiderCar B user_id image_car plate_number car_type st = (Inr rec, st')
         \<and> get_prop rec ''user_id'' = foreign_key B user_id
         \<and> (\<exists>d. doc_get (rider_col st') (js_String B (get_prop rec ''id'')) = Some d
                \<and> get_prop d ''user_id'' = foreign_key B user_id))"
    using createRiderCar_stores by blast
  have c: "(js_Number B user_id \<noteq> NaN \<longrightarrow> foreign_key B user_id = Num (js_Number B user_id))
   \<and> (js_Number B user_id = NaN \<longrightarrow> foreign_key B user_id = Str (js_String B user_id))"
    by (simp add: foreign_key_def js_isNaN_def)
  have c': "\<forall>s n. user_id = Str s \<and> plain_number s = Some n \<longrightarrow> foreign_key B user_id = Num (Fin n)"
    by (simp add: foreign_key_def js_isNaN_def string_to_number_def)
  have d: "\<forall>u st1. counters_ok st \<and> createUser B name password phone picture role st = (Inr u, st1) \<longrightarrow>
        (\<exists>n. get_prop u ''id'' = Str (show_int n)
            \<and> doc_get (user_col st1) (show_int n) \<noteq> None
            \<and> foreign_key B (get_prop u ''id'') = Num (Fin n))"
    using createUser_id_numeric by blast
  from a b c c' d show ?thesis by blast
qed


theorem foreign_key_type_witness:
  "foreign_key example_lib (Str ''1'') = Num (Fin 1)
   \<and> foreign_key example_lib (Str ''abc'') = Str ''abc''
   \<and> (\<exists>rec st'. createAddress example_lib (Str ''1'') (Str ''home'') Undefined Undefined empty_store
           = (Inr rec, st')
         \<and> get_prop rec ''user_id'' = Num (Fin 1))
   \<and> (\<exists>rec st'. createRiderCar example_lib (Str ''1'') Undefined (Str ''AB'') (Str ''car'') empty_store
           = (Inr rec, st')
         \<and> get_prop rec ''user_id'' = Num (Fin 1))
   \<and> (\<exists>n. foreign_key example_lib (Str ''1'') = Num (Fin n))"
proof -
  have n1: "plain_number ''1'' = Some 1" by code_simp
  have n2: "js_Number example_lib (Str ''abc'') = NaN" by code_simp
  have t: "truthy (Str ''1'') \<and> truthy (Str ''home'') \<and> truthy (Str ''AB'') \<and> truthy (Str ''car'')"
    by simp
  have ok: "counters_ok empty_store" by (simp add: counters_ok_def empty_store_def)
  have cu: "createUser example_lib (Str ''A'') (Str ''x'') (Str ''1'') Undefined (Num (Fin 1)) empty_store =
     (Inr [(''id'', Str ''1''), (''user_id'', Num (Fin 1)), (''name'', Str ''A''),
           (''password'', Str ''x''), (''phone'', Str ''1''), (''picture'', Null),
           (''role'', Num (Fin 1))],
      \<lparr>user_col = [(''1'', [(''user_id'', Num (Fin 1)), (''name'', Str ''A''),
           (''password'', Str ''x''), (''phone'', Str ''1''), (''picture'', Null),
           (''role'', Num (Fin 1))])],
       addr_col = [], rider_col = [],
       counters = [(''user_seq'', [(''value'', Num (Fin 1))])]\<rparr>)"
    by code_simp
  have gp: "get_prop [(''id'', Str ''1''), (''user_id'', Num (Fin 1)), (''name'', Str ''A''),
           (''password'', Str ''x''), (''phone'', Str ''1''), (''picture'', Null),
           (''role'', Num (Fin 1))] ''id'' = Str ''1''"
    by (simp add: get_prop_def)
  note w1 = foreign_key_type [where B = example_lib and user_id = "Str ''1''" and address = "Str ''home''"
      and lat = Undefined and lng = Undefined and st = empty_store and plate_number = "Str ''AB''"
      and car_type = "Str ''car''" and image_car = Undefined and name = "Str ''A''"
      and password = "Str ''x''" and phone = "Str ''1''" and picture = Undefined and role = "Num (Fin 1)"]
  note w2 = foreign_key_type [where B = example_lib and user_id = "Str ''abc''" and address = "Str ''home''"
      and lat = Undefined and lng = Undefined and st = empty_store and plate_number = "Str ''AB''"
      and car_type = "Str ''car''" and image_car = Undefined and name = "Str ''A''"
      and password = "Str ''x''" and phone = "Str ''1''" and picture = Undefined and role = "Num (Fin 1)"]
  have a: "foreign_key example_lib (Str ''1'') = Num (Fin 1)" using w1 n1 by blast
  have b: "foreign_key example_lib (Str ''abc'') = Str ''abc''" using w2 n2 by simp
  have c: "\<exists>rec st'. createAddress example_lib (Str ''1'') (Str ''home'') Undefined Undefined empty_store
           = (Inr rec, st')
         \<and> get_prop rec ''user_id'' = Num (Fin 1)"
    using w1 t a by metis
  have d: "\<exists>rec st'. createRiderCar example_lib (Str ''1'') Undefined (Str ''AB'') (Str ''car'') empty_store
           = (Inr rec, st')
         \<and> get_prop rec ''user_id'' = Num (Fin 1)"
    using w1 t a by metis
  have e: "\<exists>n. foreign_key example_lib (Str ''1'') = Num (Fin n)"
    using w1 ok cu gp by metis
  from a b c d e show ?thesis by blast
qed

section \<open>Addresses\<close>






section \<open>Login\<close>

text \<open>The query finds a user that is in the collection when no other document of the
  collection holds the phone.\<close>

lemma find_Some_mem: "find P xs = Some x \<Longrightarrow> x \<in> set xs \<and> P x"
  by (induction xs) (auto split: if_splits)

lemma where_phone_unique:
  assumes mem: "(k, u) \<in> set c"
    and own: "CHR ''/'' \<notin> set k"
    and ph: "get_prop u ''phone'' = Str s"
    and uniq: "\<forall>(k', d) \<in> set c. CHR ''/'' \<notin> set k' \<and> get_prop d ''phone'' = Str s \<longrightarrow> k' = k \<and> d = u"
  shows "where_phone c s = Some (k, u)"
proof -
  let ?P = "\<lambda>(k, d). CHR ''/'' \<notin> set k \<and> get_prop d ''phone'' = Str s"
  have "find ?P c \<noteq> None"
    using mem own ph by (auto simp: find_None_iff)
  then obtain x where x: "find ?P c = Some x" by blast
  then have "x \<in> set c" "?P x"
    using find_Some_mem [of ?P c x] by auto
  with uniq have "x = (k, u)" by (cases x) auto
  with x show ?thesis by (simp add: where_phone_def)
qed

lemma where_phone_sound:
  "where_phone c s = Some (k, u) \<Longrightarrow> (k, u) \<in> set c \<and> get_prop u ''phone'' = Str s"
  using find_Some_mem [of "\<lambda>(k, d). CHR ''/'' \<notin> set k \<and> get_prop d ''phone'' = Str s" c "(k, u)"]
  by (simp add: where_phone_def)

lemma login_found:
  assumes "truthy (get_prop body ''phone'')" "truthy (get_prop body ''password'')"
    and "where_phone (user_col st) (js_String B (get_prop body ''phone'')) = Some (k, u)"
  shows "login B body st =
     (if js_String B (get_prop u ''password'') \<noteq> js_String B (get_prop body ''password'')
      then (401, of_obj [(''error'', Str ''invalid credentials'')])
      else (200, of_obj [(''id'', Str k), (''name'', get_prop u ''name''),
                         (''phone'', get_prop u ''phone''),
                         (''role'', Num (js_Number B (get_prop u ''role'')))]))"
  using assms by (simp add: login_def Let_def)

lemma login_simple_found:
  assumes "truthy (get_prop body ''phone'')" "truthy (get_prop body ''password'')"
    and "where_phone (user_col st) (js_String B (get_prop body ''phone'')) = Some (k, u)"
  shows "login_simple B body st =
     (if js_String B (get_prop u ''password'') \<noteq> js_String B (get_prop body ''password'')
      then (401, of_obj [(''error'', Str ''invalid credentials'')])
      else (200, of_obj [(''id'', Str k), (''name'', get_prop u ''name''),
                         (''phone'', get_prop u ''phone''),
                         (''role'', get_prop u ''role'')]))"
  using assms by (simp add: login_simple_def Let_def)

lemma of_obj_keys: "set (json_keys (of_obj ob)) \<subseteq> fst ` set ob"
  by (force simp: of_obj_def map_filter_def)

lemma login_keys:
  "set (json_keys (snd (login B body st))) \<subseteq> {''error'', ''id'', ''name'', ''phone'', ''role''}"
proof -
  have "snd (login B body st) = of_obj [(''error'', Str ''phone and password are required'')]
      \<or> snd (login B body st) = of_obj [(''error'', Str ''invalid credentials'')]
      \<or> (\<exists>a b c d. snd (login B body st) = of_obj [(''id'', a), (''name'', b), (''phone'', c), (''role'', d)])"
    by (auto simp: login_def Let_def split: option.splits prod.splits)
  then show ?thesis using of_obj_keys by fastforce
qed

lemma login_simple_keys:
  "set (json_keys (snd (login_simple B body st))) \<subseteq> {''error'', ''id'', ''name'', ''phone'', ''role''}"
proof -
  have "snd (login_simple B body st) = of_obj [(''error'', Str ''phone and password are required'')]
      \<or> snd (login_simple B body st) = of_obj [(''error'', Str ''invalid credentials'')]
      \<or> (\<exists>a b c d. snd (login_simple B body st) = of_obj [(''id'', a), (''name'', b), (''phone'', c), (''role'', d)])"
    by (auto simp: login_simple_def Let_def split: option.splits prod.splits)
  then show ?thesis using of_obj_keys by fastforce
qed

lemma of_obj_user:
  "of_obj [(''id'', Str k), (''name'', Str n), (''phone'', Str s), (''role'', Num (Fin r))]
     = JO [(''id'', JV (Str k)), (''name'', JV (Str n)), (''phone'', JV (Str s)),
           (''role'', JV (Num (Fin r)))]"
  by (simp add: of_obj_def List.map_filter_simps)

text \<open>
  C7. Let a user document \<open>u\<close> with id \<open>k\<close> be stored in the user collection, let
  its phone be the phone sent (as a string) and let no other user document hold that
  phone. A login request that carries this phone and a password then gets: with the
  stored password equal to the given one (both compared as strings), the answer 200
  whose body holds exactly \<^verbatim>\<open>id\<close>, \<^verbatim>\<open>name\<close>, \<^verbatim>\<open>phone\<close> and \<^verbatim>\<open>role\<close> of that
  user (for a document without a role the body has \<^verbatim>\<open>role: null\<close> in the variant
  with sequential ids and no \<^verbatim>\<open>role\<close> in the other); with a different password,
  the answer 401. No answer of the login handler, in
  either variant, has a \<^verbatim>\<open>password\<close> property.
\<close>

theorem login_credentials:
  "(truthy (get_prop body ''phone'') \<and> truthy (get_prop body ''password'')
      \<and> (k, u) \<in> set (user_col st) \<and> CHR ''/'' \<notin> set k
      \<and> get_prop u ''phone'' = Str (js_String B (get_prop body ''phone''))
      \<and> (\<forall>(k', d) \<in> set (user_col st).
            CHR ''/'' \<notin> set k' \<and> get_prop d ''phone'' = Str (js_String B (get_prop body ''phone''))
            \<longrightarrow> k' = k \<and> d = u) \<longrightarrow>
        (js_String B (get_prop u ''password'') = js_String B (get_prop body ''password'') \<longrightarrow>
           login B body st = (200, of_obj [(''id'', Str k), (''name'', get_prop u ''name''),
                                      (''phone'', get_prop u ''phone''),
                                      (''role'', Num (js_Number B (get_prop u ''role'')))])
           \<and> login_simple B body st = (200, of_obj [(''id'', Str k), (''name'', get_prop u ''name''),
                                      (''phone'', get_prop u ''phone''),
                                      (''role'', get_prop u ''role'')])
           \<and> (\<forall>n r. get_prop u ''name'' = Str n \<and> get_prop u ''role'' = Num (Fin r) \<longrightarrow>
                 login B body st =
                   (200, JO [(''id'', JV (Str k)), (''name'', JV (Str n)),
                             (''phone'', JV (Str (js_String B (get_prop body ''phone'')))),
                             (''role'', JV (Num (Fin r)))])
                 \<and> login_simple B body st = login B body st)
           \<and> (\<forall>n. get_prop u ''name'' = Str n \<and> get_prop u ''role'' = Undefined \<longrightarrow>
                 login B body st =
                   (200, JO [(''id'', JV (Str k)), (''name'', JV (Str n)),
                             (''phone'', JV (Str (js_String B (get_prop body ''phone'')))),
                             (''role'', JV Null)])
                 \<and> login_simple B body st =
                   (200, JO [(''id'', JV (Str k)), (''name'', JV (Str n)),
                             (''phone'', JV (Str (js_String B (get_prop body ''phone''))))])))
        \<and> (js_String B (get_prop u ''password'') \<noteq> js_String B (get_prop body ''password'') \<longrightarrow>
           login B body st = (401, of_obj [(''error'', Str ''invalid credentials'')])
           \<and> login_simple B body st = (401, of_obj [(''error'', Str ''invalid credentials'')])))
   \<and> ''password'' \<notin> set (json_keys (snd (login B body st)))
   \<and> ''password'' \<notin> set (json_keys (snd (login_simple B body st)))"
proof -
  have a: "truthy (get_prop body ''phone'') \<and> truthy (get_prop body ''password'')
      \<and> (k, u) \<in> set (user_col st) \<and> CHR ''/'' \<notin> set k
      \<and> get_prop u ''phone'' = Str (js_String B (get_prop body ''phone''))
      \<and> (\<forall>(k', d) \<in> set (user_col st).
            CHR ''/'' \<notin> set k' \<and> get_prop d ''phone'' = Str (js_String B (get_prop body ''phone''))
            \<longrightarrow> k' = k \<and> d = u) \<longrightarrow>
        (js_String B (get_prop u ''password'') = js_String B (get_prop body ''password'') \<longrightarrow>
           login B body st = (200, of_obj [(''id'', Str k), (''name'', get_prop u ''name''),
                                      (''phone'', get_prop u ''phone''),
                                      (''role'', Num (js_Number B (get_prop u ''role'')))])
           \<and> login_simple B body st = (200, of_obj [(''id'', Str k), (''name'', get_prop u ''name''),
                                      (''phone'', get_prop u ''phone''),
                                      (''role'', get_prop u ''role'')])
           \<and> (\<forall>n r. get_prop u ''name'' = Str n \<and> get_prop u ''role'' = Num (Fin r) \<longrightarrow>
                 login B body st =
                   (200, JO [(''id'', JV (Str k)), (''name'', JV (Str n)),
                             (''phone'', JV (Str (js_String B (get_prop body ''phone'')))),
                             (''role'', JV (Num (Fin r)))])
                 \<and> login_simple B body st = login B body st)
           \<and> (\<forall>n. get_prop u ''name'' = Str n \<and> get_prop u ''role'' = Undefined \<longrightarrow>
                 login B body st =
                   (200, JO [(''id'', JV (Str k)), (''name'', JV (Str n)),
                             (''phone'', JV (Str (js_String B (get_prop body ''phone'')))),
                             (''role'', JV Null)])
                 \<and> login_simple B body st =
                   (200, JO [(''id'', JV (Str k)), (''name'', JV (Str n)),
                             (''phone'', JV (Str (js_String B (get_prop body ''phone''))))])))
        \<and> (js_String B (get_prop u ''password'') \<noteq> js_String B (get_prop body ''password'') \<longrightarrow>
           login B body st = (401, of_obj [(''error'', Str ''invalid credentials'')])
           \<and> login_simple B body st = (401, of_obj [(''error'', Str ''invalid credentials'')]))"
  proof
    assume h: "truthy (get_prop body ''phone'') \<and> truthy (get_prop body ''password'')
      \<and> (k, u) \<in> set (user_col st) \<and> CHR ''/'' \<notin> set k
      \<and> get_prop u ''phone'' = Str (js_String B (get_prop body ''phone''))
      \<and> (\<forall>(k', d) \<in> set (user_col st).
            CHR ''/'' \<notin> set k' \<and> get_prop d ''phone'' = Str (js_String B (get_prop body ''phone''))
            \<longrightarrow> k' = k \<and> d = u)"
    then have w: "where_phone (user_col st) (js_String B (get_prop body ''phone'')) = Some (k, u)"
      by (intro where_phone_unique) simp_all
    from h have t1: "truthy (get_prop body ''phone'')" and t2: "truthy (get_prop body ''password'')"
      and ph: "get_prop u ''phone'' = Str (js_String B (get_prop body ''phone''))"
      by simp_all
    show "(js_String B (get_prop u ''password'') = js_String B (get_prop body ''password'') \<longrightarrow>
           login B body st = (200, of_obj [(''id'', Str k), (''name'', get_prop u ''name''),
                                      (''phone'', get_prop u ''phone''),
                                      (''role'', Num (js_Number B (get_prop u ''role'')))])
           \<and> login_simple B body st = (200, of_obj [(''id'', Str k), (''name'', get_prop u ''name''),
                                      (''phone'', get_prop u ''phone''),
                                      (''role'', get_prop u ''role'')])
           \<and> (\<forall>n r. get_prop u ''name'' = Str n \<and> get_prop u ''role'' = Num (Fin r) \<longrightarrow>
                 login B body st =
                   (200, JO [(''id'', JV (Str k)), (''name'', JV (Str n)),
                             (''phone'', JV (Str (js_String B (get_prop body ''phone'')))),
                             (''role'', JV (Num (Fin r)))])
                 \<and> login_simple B body st = login B body st)
           \<and> (\<forall>n. get_prop u ''name'' = Str n \<and> get_prop u ''role'' = Undefined \<longrightarrow>
                 login B body st =
                   (200, JO [(''id'', JV (Str k)), (''name'', JV (Str n)),
                             (''phone'', JV (Str (js_String B (get_prop body ''phone'')))),
                             (''role'', JV Null)])
                 \<and> login_simple B body st =
                   (200, JO [(''id'', JV (Str k)), (''name'', JV (Str n)),
                             (''phone'', JV (Str (js_String B (get_prop body ''phone''))))])))
        \<and> (js_String B (get_prop u ''password'') \<noteq> js_String B (get_prop body ''password'') \<longrightarrow>
           login B body st = (401, of_obj [(''error'', Str ''invalid credentials'')])
           \<and> login_simple B body st = (401, of_obj [(''error'', Str ''invalid credentials'')]))"
      by (simp add: login_found [OF t1 t2 w] login_simple_found [OF t1 t2 w] ph of_obj_user
            of_obj_def List.map_filter_simps)
  qed
  have c: "''password'' \<notin> set (json_keys (snd (login B body st)))"
    using login_keys [of B body st] by auto
  have d: "''password'' \<notin> set (json_keys (snd (login_simple B body st)))"
    using login_simple_keys [of B body st] by auto
  from a c d show ?thesis by blast
qed

theorem login_credentials_witness:
  "login example_lib [(''phone'', Str ''0800000002''), (''password'', Str ''y'')]
      (empty_store\<lparr>user_col :=
         [(''1'', [(''user_id'', Num (Fin 1)), (''name'', Str ''A''), (''password'', Str ''x''),
                   (''phone'', Str ''0800000001''), (''picture'', Null), (''role'', Num (Fin 0))]),
          (''2'', [(''user_id'', Num (Fin 2)), (''name'', Str ''B''), (''password'', Str ''y''),
                   (''phone'', Str ''0800000002''), (''picture'', Null), (''role'', Num (Fin 1))])]\<rparr>)
     = (200, JO [(''id'', JV (Str ''2'')), (''name'', JV (Str ''B'')),
                 (''phone'', JV (Str ''0800000002'')), (''role'', JV (Num (Fin 1)))])
   \<and> login example_lib [(''phone'', Str ''0800000002''), (''password'', Str ''x'')]
      (empty_store\<lparr>user_col :=
         [(''1'', [(''user_id'', Num (Fin 1)), (''name'', Str ''A''), (''password'', Str ''x''),
                   (''phone'', Str ''0800000001''), (''picture'', Null), (''role'', Num (Fin 0))]),
          (''2'', [(''user_id'', Num (Fin 2)), (''name'', Str ''B''), (''password'', Str ''y''),
                   (''phone'', Str ''0800000002''), (''picture'', Null), (''role'', Num (Fin 1))])]\<rparr>)
     = (401, of_obj [(''error'', Str ''invalid credentials'')])"
proof -
  let ?a = "[(''user_id'', Num (Fin 1)), (''name'', Str ''A''), (''password'', Str ''x''),
             (''phone'', Str ''0800000001''), (''picture'', Null), (''role'', Num (Fin 0))]"
  let ?u = "[(''user_id'', Num (Fin 2)), (''name'', Str ''B''), (''password'', Str ''y''),
             (''phone'', Str ''0800000002''), (''picture'', Null), (''role'', Num (Fin 1))]"
  let ?st = "empty_store\<lparr>user_col := [(''1'', ?a), (''2'', ?u)]\<rparr>"
  let ?good = "[(''phone'', Str ''0800000002''), (''password'', Str ''y'')]"
  let ?bad = "[(''phone'', Str ''0800000002''), (''password'', Str ''x'')]"
  have g: "truthy (get_prop ?good ''phone'') \<and> truthy (get_prop ?good ''password'')
      \<and> (''2'', ?u) \<in> set (user_col ?st) \<and> CHR ''/'' \<notin> set ''2''
      \<and> get_prop ?u ''phone'' = Str (js_String example_lib (get_prop ?good ''phone''))
      \<and> (\<forall>(k', d) \<in> set (user_col ?st).
            CHR ''/'' \<notin> set k' \<and> get_prop d ''phone'' = Str (js_String example_lib (get_prop ?good ''phone''))
            \<longrightarrow> k' = ''2'' \<and> d = ?u)"
    by (simp add: get_prop_def)
  have w: "truthy (get_prop ?bad ''phone'') \<and> truthy (get_prop ?bad ''password'')
      \<and> (''2'', ?u) \<in> set (user_col ?st) \<and> CHR ''/'' \<notin> set ''2''
      \<and> get_prop ?u ''phone'' = Str (js_String example_lib (get_prop ?bad ''phone''))
      \<and> (\<forall>(k', d) \<in> set (user_col ?st).
            CHR ''/'' \<notin> set k' \<and> get_prop d ''phone'' = Str (js_String example_lib (get_prop ?bad ''phone''))
            \<longrightarrow> k' = ''2'' \<and> d = ?u)"
    by (simp add: get_prop_def)
  have pg: "js_String example_lib (get_prop ?u ''password'') = js_String example_lib (get_prop ?good ''password'')"
    by (simp add: get_prop_def)
  have pb: "js_String example_lib (get_prop ?u ''password'') \<noteq> js_String example_lib (get_prop ?bad ''password'')"
    by (simp add: get_prop_def)
  have f: "get_prop ?u ''name'' = Str ''B'' \<and> get_prop ?u ''role'' = Num (Fin 1)"
    by (simp add: get_prop_def)
  have s: "js_String example_lib (get_prop ?good ''phone'') = ''0800000002''"
    by (simp add: get_prop_def)
  have a: "login example_lib ?good ?st =
      (200, JO [(''id'', JV (Str ''2'')), (''name'', JV (Str ''B'')),
                (''phone'', JV (Str (js_String example_lib (get_prop ?good ''phone'')))),
                (''role'', JV (Num (Fin 1)))])"
    using login_credentials [of ?good "''2''" ?u ?st example_lib] g pg f by blast
  have b: "login example_lib ?bad ?st = (401, of_obj [(''error'', Str ''invalid credentials'')])"
    using login_credentials [of ?bad "''2''" ?u ?st example_lib] w pb by blast
  from a b s show ?thesis by simp
qed

section \<open>Rider registration\<close>

lemma error_response_plain:
  "error_response (Error (Some 400) msg None) = (400, of_obj [(''error'', Str msg)])"
  by (simp add: error_response_def status_of_def spread_def)

lemma normalizeRoleInt_rider: "normalizeRoleInt B (Num (Fin 1)) = Inr (Fin 1)"
  by (simp add: normalizeRoleInt_cases js_nullish_def)

lemma createRiderCar_missing:
  "\<not> truthy plate_number \<or> \<not> truthy car_type \<Longrightarrow>
   createRiderCar B user_id image_car plate_number car_type st =
     (Inl (Error (Some 400) ''user_id, plate_number, car_type are required'' None), st)"
  by (auto simp: createRiderCar_def)

lemma createRiderCar_simple_missing:
  "\<not> truthy plate_number \<or> \<not> truthy car_type \<Longrightarrow>
   createRiderCar_simple B user_id image_car plate_number car_type autoId st =
     (Inl (Error (Some 400) ''user_id, plate_number, car_type are required'' None), st)"
  by (auto simp: createRiderCar_simple_def)

lemma register_rider_partial:
  assumes req: "truthy (get_prop body ''name'')" "truthy (get_prop body ''password'')"
      "truthy (get_prop body ''phone'')"
    and fresh: "where_phone (user_col st) (js_String B (get_prop body ''phone'')) = None"
    and miss: "\<not> truthy (get_prop body ''plate_number'') \<or> \<not> truthy (get_prop body ''car_type'')"
    and v: "fst (nextId B ''user_seq'' st) = Inr v"
  shows "register_rider B body st =
     ((400, of_obj [(''error'', Str ''user_id, plate_number, car_type are required'')]),
      (snd (nextId B ''user_seq'' st))
        \<lparr>user_col := doc_set (user_col st) (num_to_string B v)
            (user_data B v (get_prop body ''name'')
               (get_prop body ''password'') (get_prop body ''phone'') (get_prop body ''picture'')
               (Fin 1))\<rparr>)"
  using miss
  by (simp add: register_rider_def createUser_success [OF req normalizeRoleInt_rider fresh v]
        createRiderCar_missing error_response_plain)

lemma register_rider_simple_partial:
  assumes req: "truthy (get_prop body ''name'')" "truthy (get_prop body ''password'')"
      "truthy (get_prop body ''phone'')"
    and fresh: "where_phone (user_col st) (js_String B (get_prop body ''phone'')) = None"
    and miss: "\<not> truthy (get_prop body ''plate_number'') \<or> \<not> truthy (get_prop body ''car_type'')"
  shows "register_rider_simple B body autoUser autoRider st =
     ((400, of_obj [(''error'', Str ''user_id, plate_number, car_type are required'')]),
      st\<lparr>user_col := doc_set (user_col st) autoUser
            [(''name'', Str (js_String B (get_prop body ''name''))),
             (''password'', Str (js_String B (get_prop body ''password''))),
             (''phone'', Str (js_String B (get_prop body ''phone''))),
             (''picture'', if truthy (get_prop body ''picture'')
                           then Str (js_String B (get_prop body ''picture'')) else Null),
             (''role'', Num (Fin 1))]\<rparr>)"
  using req fresh miss
  by (simp add: register_rider_simple_def createUser_simple_def assertPhoneNotDuplicate_simple_def
        Let_def doc_add_def createRiderCar_simple_missing error_response_plain)

text \<open>
  C8. When the body of \<^verbatim>\<open>POST /register/rider\<close> carries name, password and a phone
  that no user holds, but lacks \<^verbatim>\<open>plate_number\<close> or \<^verbatim>\<open>car_type\<close>, the handler
  answers 400 with the message of \<^verbatim>\<open>createRiderCar\<close>, and the store it leaves holds
  the user document just created, with role 1, under the new key; no rider vehicle is
  written and nothing removes the user. This holds in both variants.
\<close>

theorem register_rider_no_rollback:
  assumes "truthy (get_prop body ''name'')" "truthy (get_prop body ''password'')"
      "truthy (get_prop body ''phone'')"
    and "where_phone (user_col st) (js_String B (get_prop body ''phone'')) = None"
    and "\<not> truthy (get_prop body ''plate_number'') \<or> \<not> truthy (get_prop body ''car_type'')"
  shows "fst (register_rider B body st)
           = (400, of_obj [(''error'', Str ''user_id, plate_number, car_type are required'')])
    \<and> (\<exists>v d. fst (nextId B ''user_seq'' st) = Inr v
           \<and> doc_get (user_col (snd (register_rider B body st))) (num_to_string B v) = Some d
           \<and> get_prop d ''role'' = Num (Fin 1)
           \<and> get_prop d ''phone'' = Str (js_String B (get_prop body ''phone'')))
    \<and> rider_col (snd (register_rider B body st)) = rider_col st
    \<and> fst (register_rider_simple B body autoUser autoRider st)
           = (400, of_obj [(''error'', Str ''user_id, plate_number, car_type are required'')])
    \<and> (\<exists>d. doc_get (user_col (snd (register_rider_simple B body autoUser autoRider st))) autoUser = Some d
           \<and> get_prop d ''role'' = Num (Fin 1)
           \<and> get_prop d ''phone'' = Str (js_String B (get_prop body ''phone'')))
    \<and> rider_col (snd (register_rider_simple B body autoUser autoRider st)) = rider_col st"
proof -
  obtain v where v: "fst (nextId B ''user_seq'' st) = Inr v"
    using nextId_sequence_ok(1) by blast
  note p = register_rider_partial [OF assms v]
  note q = register_rider_simple_partial [OF assms, of autoUser autoRider]
  have a: "fst (register_rider B body st)
           = (400, of_obj [(''error'', Str ''user_id, plate_number, car_type are required'')])"
    by (simp add: p)
  have b: "\<exists>v d. fst (nextId B ''user_seq'' st) = Inr v
           \<and> doc_get (user_col (snd (register_rider B body st))) (num_to_string B v) = Some d
           \<and> get_prop d ''role'' = Num (Fin 1)
           \<and> get_prop d ''phone'' = Str (js_String B (get_prop body ''phone''))"
    using v by (simp add: p doc_get_set user_data_fields)
  have c: "rider_col (snd (register_rider B body st)) = rider_col st"
    by (simp add: p nextId_frame)
  have d: "fst (register_rider_simple B body autoUser autoRider st)
           = (400, of_obj [(''error'', Str ''user_id, plate_number, car_type are required'')])"
    by (simp add: q)
  have e: "\<exists>d. doc_get (user_col (snd (register_rider_simple B body autoUser autoRider st))) autoUser = Some d
           \<and> get_prop d ''role'' = Num (Fin 1)
           \<and> get_prop d ''phone'' = Str (js_String B (get_prop body ''phone''))"
    by (simp add: q doc_get_set get_prop_def)
  have f: "rider_col (snd (register_rider_simple B body autoUser autoRider st)) = rider_col st"
    by (simp add: q)
  from a b c d e f show ?thesis by blast
qed

theorem register_rider_no_rollback_witness:
  "fst (register_rider example_lib
          [(''name'', Str ''A''), (''password'', Str ''x''), (''phone'', Str ''0800000001'')]
          empty_store)
     = (400, of_obj [(''error'', Str ''user_id, plate_number, car_type are required'')])
   \<and> (\<exists>d. doc_get (user_col (snd (register_rider example_lib
             [(''name'', Str ''A''), (''password'', Str ''x''), (''phone'', Str ''0800000001'')]
             empty_store))) ''1'' = Some d
          \<and> get_prop d ''role'' = Num (Fin 1))
   \<and> rider_col (snd (register_rider example_lib
             [(''name'', Str ''A''), (''password'', Str ''x''), (''phone'', Str ''0800000001'')]
             empty_store)) = []"
proof -
  let ?b = "[(''name'', Str ''A''), (''password'', Str ''x''), (''phone'', Str ''0800000001'')]"
  have h1: "truthy (get_prop ?b ''name'')" by (simp add: get_prop_def)
  have h2: "truthy (get_prop ?b ''password'')" by (simp add: get_prop_def)
  have h3: "truthy (get_prop ?b ''phone'')" by (simp add: get_prop_def)
  have h4: "where_phone (user_col empty_store) (js_String example_lib (get_prop ?b ''phone'')) = None"
    by (simp add: where_phone_def empty_store_def)
  have h5: "\<not> truthy (get_prop ?b ''plate_number'') \<or> \<not> truthy (get_prop ?b ''car_type'')"
    by (simp add: get_prop_def)
  have r: "rider_col empty_store = []" by (simp add: empty_store_def)
  note w = register_rider_no_rollback [OF h1 h2 h3 h4 h5, of "''k1''" "''r1''", unfolded r]
  from w obtain v d where
    v: "fst (nextId example_lib ''user_seq'' empty_store) = Inr v"
    and d: "doc_get (user_col (snd (register_rider example_lib ?b empty_store)))
              (num_to_string example_lib v) = Some d"
       "get_prop d ''role'' = Num (Fin 1)"
    by blast
  from v have "v = Fin 1" by (simp add: nextId_first)
  with d have "\<exists>d. doc_get (user_col (snd (register_rider example_lib ?b empty_store))) ''1'' = Some d
          \<and> get_prop d ''role'' = Num (Fin 1)"
    by (auto simp: num_to_string_1)
  with w show ?thesis by blast
qed

end
